theory Spec2Isabelle
  imports Main
begin

section \<open>Trigger coordinator: the change-stream watcher\<close>

text \<open>
  The watcher script keeps two module-level variables, \<open>etlRunning\<close> and \<open>etlQueue\<close>.
  Its handlers run to completion one at a time on the event loop, so each handler is a
  function from coordinator state to coordinator state.  Three further components record
  what the handlers ask of the operating system and the timer queue; the source never
  reads them:
  \<^item> \<open>spawned\<close>: how many times \<open>spawn('node', [etlScript])\<close> has been called;
  \<^item> \<open>live\<close>: child processes spawned whose \<open>close\<close> event is still to come;
  \<^item> \<open>timers\<close>: the delays (ms) of the pending \<open>setTimeout(runETL, d)\<close> calls.
\<close>

record coordinator =
  etlRunning :: bool
  etlQueue :: "int list"
  spawned :: nat
  live :: nat
  timers :: "nat list"

definition initial_coordinator :: coordinator where
  "initial_coordinator =
     \<lparr>etlRunning = False, etlQueue = [], spawned = 0, live = 0, timers = []\<rparr>"

text \<open>
  \<open>runETL\<close> of the watcher (the pipeline script has a function of the same name, modelled
  below as \<open>runETL\<close>).  \<open>now\<close> is the value of \<open>Date.now()\<close> pushed on the queue.
\<close>

definition runETL_watcher :: "int \<Rightarrow> coordinator \<Rightarrow> coordinator" where
  "runETL_watcher now s =
     (if etlRunning s then s\<lparr>etlQueue := etlQueue s @ [now]\<rparr>
      else s\<lparr>etlRunning := True, spawned := Suc (spawned s), live := Suc (live s)\<rparr>)"

text \<open>The \<open>close\<close> handler of the child process; \<open>code\<close> is only logged.\<close>

definition on_close :: "int \<Rightarrow> coordinator \<Rightarrow> coordinator" where
  "on_close code s =
     (let s1 = s\<lparr>etlRunning := False\<rparr>
      in if length (etlQueue s1) > 0
         then s1\<lparr>etlQueue := [], timers := timers s1 @ [2000]\<rparr>
         else s1)"

text \<open>The \<open>error\<close> handler of the child process.\<close>

definition on_error :: "coordinator \<Rightarrow> coordinator" where
  "on_error s = s\<lparr>etlRunning := False\<rparr>"

text \<open>
  What the event loop can deliver to the coordinator:
  \<^item> \<open>Change now\<close>: the change stream's \<open>change\<close> handler, which logs and calls \<open>runETL()\<close>;
  \<^item> \<open>Close code\<close>: a live child closes;
  \<^item> \<open>SpawnError code\<close>: a child could not be spawned.  The script never kills or messages
    its child, so this is the only source of \<open>error\<close>; Node emits \<open>error\<close> and then \<open>close\<close>
    for such a child in the same turn of the loop, so both handlers run back to back;
  \<^item> \<open>Timer now\<close>: the oldest pending \<open>setTimeout(runETL, 2000)\<close> fires.
  An event that cannot happen in the state (a close with no live child, a timer when none
  is pending) gives \<open>None\<close>.
\<close>

datatype event = Change int | Close int | SpawnError int | Timer int

fun step :: "coordinator \<Rightarrow> event \<Rightarrow> coordinator option" where
  "step s (Change now) = Some (runETL_watcher now s)"
| "step s (Close code) =
     (if live s = 0 then None else Some (on_close code (s\<lparr>live := live s - 1\<rparr>)))"
| "step s (SpawnError code) =
     (if live s = 0 then None
      else Some (on_close code (on_error (s\<lparr>live := live s - 1\<rparr>))))"
| "step s (Timer now) =
     (case timers s of [] \<Rightarrow> None
      | d # ds \<Rightarrow> Some (runETL_watcher now (s\<lparr>timers := ds\<rparr>)))"

fun exec :: "coordinator \<Rightarrow> event list \<Rightarrow> coordinator option" where
  "exec s [] = Some s"
| "exec s (e # es) = (case step s e of None \<Rightarrow> None | Some s' \<Rightarrow> exec s' es)"

text \<open>
  \<open>setupChangeStream\<close>: wait for the connection to open, create the change stream, register
  the handlers, then run the pipeline once.  A connection error or a throwing
  \<open>Plan.watch\<close> ends in \<open>process.exit(1)\<close>.
\<close>

datatype conn_event = Opened | ConnError

datatype watcher = Exited nat | Watching coordinator

definition setupChangeStream :: "conn_event \<Rightarrow> bool \<Rightarrow> int \<Rightarrow> coordinator \<Rightarrow> watcher" where
  "setupChangeStream conn watch_ok now s =
     (case conn of
        ConnError \<Rightarrow> Exited 1
      | Opened \<Rightarrow> if watch_ok then Watching (runETL_watcher now s) else Exited 1)"

section \<open>The pipeline script: JavaScript values\<close>

text \<open>
  A \<open>Date\<close> object is modelled by what the script reads from it: the UTC calendar and
  clock fields that \<open>toISOString\<close> prints, and the local-time getters \<open>getFullYear\<close>,
  \<open>getMonth\<close> (0..11), \<open>getDate\<close>, \<open>getDay\<close> (0 is Sunday).  \<open>weekNumber\<close> is the value
  \<open>getWeekNumber(date)\<close> computes (an integer, negative for a year from 0 to 99, which
  \<open>new Date(year, 0, 1)\<close> reads as 1900 + year); it fills one descriptive column and nothing
  else reads it.
\<close>

record date_fields =
  utcFullYear :: int
  utcMonth :: nat
  utcDate :: nat
  utcHours :: nat
  utcMinutes :: nat
  utcSeconds :: nat
  utcMilliseconds :: nat
  getFullYear :: int
  getMonth :: nat
  getDate :: nat
  getDay :: nat
  weekNumber :: int

datatype js_date = InvalidDate | ValidDate date_fields

text \<open>
  Values of a document.  A number is an integer (\<open>Num\<close>), \<open>NaN\<close>, or any other number, a
  fraction or an infinity, which is kept as the text that names it (\<open>Float\<close>, never the text
  of an integer, of zero or of \<open>NaN\<close>).  Every integer of magnitude up to \<open>2 ^ 53\<close> is a
  number of JavaScript; a document holds no \<open>Num\<close> that is not one.  An object is its list of
  own properties.
\<close>

datatype jsval =
    Undefined | Null | NaN | Bool bool | Num int | Float string | Str string
  | Arr "jsval list" | Obj "(string \<times> jsval) list" | DateObj js_date

type_synonym document = "(string \<times> jsval) list"

datatype error = TypeError | RangeError | DbError | ConnectionError

definition truthy :: "jsval \<Rightarrow> bool" where
  "truthy v = (case v of
       Undefined \<Rightarrow> False | Null \<Rightarrow> False | NaN \<Rightarrow> False
     | Bool b \<Rightarrow> b | Num n \<Rightarrow> n \<noteq> 0 | Float _ \<Rightarrow> True | Str s \<Rightarrow> s \<noteq> []
     | Arr _ \<Rightarrow> True | Obj _ \<Rightarrow> True | DateObj _ \<Rightarrow> True)"

text \<open>\<open>a || b\<close> for an operand \<open>b\<close> whose evaluation cannot fail.\<close>

definition js_or :: "jsval \<Rightarrow> jsval \<Rightarrow> jsval" where
  "js_or a b = (if truthy a then a else b)"

text \<open>\<open>plan.k\<close> on a document, which is always an object.\<close>

definition field :: "document \<Rightarrow> string \<Rightarrow> jsval" where
  "field doc k = (case map_of doc k of Some v \<Rightarrow> v | None \<Rightarrow> Undefined)"

text \<open>
  \<open>v?.k\<close> and \<open>v.k\<close> for the property names the script uses (none of them is a property of
  a string, number, boolean, array or date): \<open>v.k\<close> throws on \<open>undefined\<close> and \<open>null\<close>.
\<close>

definition optional :: "jsval \<Rightarrow> string \<Rightarrow> jsval" where
  "optional v k = (case v of Obj kvs \<Rightarrow> field kvs k | _ \<Rightarrow> Undefined)"

definition member :: "jsval \<Rightarrow> string \<Rightarrow> error + jsval" where
  "member v k = (case v of Undefined \<Rightarrow> Inl TypeError | Null \<Rightarrow> Inl TypeError
                  | _ \<Rightarrow> Inr (optional v k))"


subsection \<open>Strings\<close>

text \<open>
  Strings are byte strings (the encoded text).  On a string of ASCII characters,
  \<open>toLowerCase\<close> changes the letters \<open>A\<close>..\<open>Z\<close>, and the class \<open>\s\<close> is tab, line feed,
  vertical tab, form feed, carriage return and space.  What the two do on a string with a
  character outside ASCII (other letters, other white space) is left to the runtime, below.
\<close>

definition is_ascii :: "char \<Rightarrow> bool" where
  "is_ascii c = ((of_char c :: nat) < 128)"

definition lower_char :: "char \<Rightarrow> char" where
  "lower_char c = (let n = (of_char c :: nat) in
                    if 65 \<le> n \<and> n \<le> 90 then char_of (n + 32) else c)"

definition is_space :: "char \<Rightarrow> bool" where
  "is_space c = (let n = (of_char c :: nat) in (9 \<le> n \<and> n \<le> 13) \<or> n = 32)"

text \<open>
  \<open>s.replace(/\s+/g, '_')\<close> on ASCII: every maximal run of white space becomes one
  underscore.
\<close>

function ascii_replace_spaces :: "string \<Rightarrow> string" where
  "ascii_replace_spaces [] = []"
| "ascii_replace_spaces (c # cs) =
     (if is_space c then CHR ''_'' # ascii_replace_spaces (dropWhile is_space cs)
      else c # ascii_replace_spaces cs)"
  by pat_completeness auto
termination
  by (relation "measure length") (auto simp: length_dropWhile_le less_Suc_eq_le)

definition digit_char :: "nat \<Rightarrow> char" where
  "digit_char n = char_of (48 + n)"

definition is_digit :: "char \<Rightarrow> bool" where
  "is_digit c = (let n = (of_char c :: nat) in 48 \<le> n \<and> n \<le> 57)"

definition digit_val :: "char \<Rightarrow> nat" where
  "digit_val c = of_char c - 48"

text \<open>
  \<open>pad w n\<close>: the last \<open>w\<close> decimal digits of \<open>n\<close>, which is \<open>String(n).padStart(w, '0')\<close>
  whenever \<open>n < 10 ^ w\<close>, as it is for every field of a date.
\<close>

fun pad :: "nat \<Rightarrow> nat \<Rightarrow> string" where
  "pad 0 n = []"
| "pad (Suc w) n = pad w (n div 10) @ [digit_char (n mod 10)]"

text \<open>\<open>String(n)\<close> for a natural number.\<close>

fun show_nat :: "nat \<Rightarrow> string" where
  "show_nat n = (if n < 10 then [digit_char n] else show_nat (n div 10) @ [digit_char (n mod 10)])"

declare show_nat.simps [simp del]

text \<open>
  \<open>parseInt(s)\<close> without a radix, for decimal input: leading white space, an optional
  sign, then the longest run of digits; \<open>None\<close> is \<open>NaN\<close>.  (The \<open>0x\<close> prefix is not modelled:
  the one argument the script passes is made of digits, \<open>+\<close> and \<open>T\<close>.)
\<close>

definition parseInt :: "string \<Rightarrow> int option" where
  "parseInt s =
     (let t = dropWhile is_space s;
          neg = (case t of [] \<Rightarrow> False | c # _ \<Rightarrow> c = CHR ''-'');
          r = (case t of [] \<Rightarrow> [] | c # cs \<Rightarrow> if c = CHR ''-'' \<or> c = CHR ''+'' then cs else t);
          ds = takeWhile is_digit r
      in if ds = [] then None
         else Some ((if neg then - 1 else 1) * int (foldl (\<lambda>a c. 10 * a + digit_val c) 0 ds)))"

subsection \<open>Dates\<close>

text \<open>
  \<open>Date.prototype.toISOString\<close>: a year from 0 to 9999 is printed with four digits, any
  other year with a sign and six digits.
\<close>

definition iso_year :: "int \<Rightarrow> string" where
  "iso_year y =
     (if 0 \<le> y \<and> y \<le> 9999 then pad 4 (nat y)
      else (if y < 0 then ''-'' else ''+'') @ pad 6 (nat \<bar>y\<bar>))"

definition toISOString :: "date_fields \<Rightarrow> string" where
  "toISOString d =
     iso_year (utcFullYear d) @ ''-'' @ pad 2 (utcMonth d) @ ''-'' @ pad 2 (utcDate d)
       @ ''T'' @ pad 2 (utcHours d) @ '':'' @ pad 2 (utcMinutes d) @ '':''
       @ pad 2 (utcSeconds d) @ ''.'' @ pad 3 (utcMilliseconds d) @ ''Z''"

text \<open>\<open>date.toISOString().split('T')[0]\<close>.\<close>

definition iso_date :: "date_fields \<Rightarrow> string" where
  "iso_date d = takeWhile (\<lambda>c. c \<noteq> CHR ''T'') (toISOString d)"

text \<open>\<open>parseInt(date.toISOString().replace(/[-:]/g, '').substring(0, 8))\<close>.\<close>

definition generated_date_key :: "date_fields \<Rightarrow> int option" where
  "generated_date_key d =
     parseInt (take 8 (filter (\<lambda>c. c \<noteq> CHR ''-'' \<and> c \<noteq> CHR '':'') (toISOString d)))"

text \<open>\<open>toLocaleString('en-US', {month: 'long'})\<close> and \<open>{weekday: 'long'}\<close>.\<close>

definition month_long :: "nat \<Rightarrow> string" where
  "month_long m =
     [''January'', ''February'', ''March'', ''April'', ''May'', ''June'', ''July'',
      ''August'', ''September'', ''October'', ''November'', ''December''] ! (m mod 12)"

definition weekday_long :: "nat \<Rightarrow> string" where
  "weekday_long d =
     [''Sunday'', ''Monday'', ''Tuesday'', ''Wednesday'', ''Thursday'', ''Friday'',
      ''Saturday''] ! (d mod 7)"

section \<open>The pipeline script: the warehouse\<close>

text \<open>
  One record per table row, with the columns the script writes.  Text columns hold the
  text bound to the statement; measure and date columns hold the bound JavaScript value.
  Columns filled by a default of the schema (\<open>created_at\<close>, \<open>version\<close>, the serial keys of
  the fact and audit tables) are never read by the script and are left out.
\<close>

record organization_row =
  o_key :: int
  org_id :: string
  org_name :: string

record plan_type_row =
  pt_key :: int
  plan_type_code :: string
  plan_type_name :: string

record date_row =
  date_key :: int
  date_value :: string
  year :: int
  quarter :: nat
  month :: nat
  month_name :: string
  day :: nat
  day_of_week :: nat
  day_name :: string
  week_of_year :: int
  is_weekend :: bool

record plan_row =
  p_key :: int
  plan_id :: string
  p_plan_type_key :: int
  p_org_key :: int
  is_current :: bool
  effective_date :: jsval
  expiration_date :: jsval

record service_row =
  service_key :: int
  service_id :: string
  service_name :: string
  service_category :: string

record plan_cost_row =
  fp_plan_key :: int
  fp_plan_type_key :: int
  fp_org_key :: int
  fp_creation_date_key :: int
  fp_deductible :: jsval
  fp_copay :: jsval
  total_cost_shares :: jsval

record service_cost_row =
  fs_service_key :: int
  fs_plan_key :: int
  fs_org_key :: int
  fs_date_key :: int
  fs_deductible :: jsval
  fs_copay :: jsval
  total_service_cost :: jsval

record audit_row =
  job_name :: string
  job_type :: string
  start_time :: int
  end_time :: int
  status :: string
  records_processed :: nat
  records_inserted :: nat
  records_updated :: nat
  records_failed :: nat
  error_message :: "string option"

text \<open>The \<open>INSERT\<close> statements of the script with their bound parameters.\<close>

datatype stmt =
    InsertOrganization string string
  | InsertPlanType string string
  | InsertDate date_row
  | InsertPlan string int int jsval
  | InsertService string string string
  | InsertPlanCost plan_cost_row
  | InsertServiceCost service_cost_row
  | InsertAudit audit_row

text \<open>
  What the script takes from outside the repository:
  \<^item> \<open>Date_ctor v\<close>: the date \<open>new Date(v)\<close> constructs (the runtime's date parser);
  \<^item> \<open>ToString v\<close>: ECMAScript \<open>ToString\<close> of a value that is not a string;
  \<^item> \<open>prepareValue v\<close>: the text the database driver binds for a value that is not a string;
  \<^item> \<open>number_add a b\<close>: the sum of two numeric operands of \<open>+\<close> that are not both integers
    with an exact sum (floating-point addition);
  \<^item> \<open>lower_case s\<close> and \<open>replace_white_space s\<close>: \<open>s.toLowerCase()\<close> and
    \<open>s.replace(/\s+/g, '_')\<close> on a string with a character outside ASCII;
  \<^item> \<open>store_rejects q\<close>: whether the database server refuses the statement for its values
    alone (a value that does not parse as \<open>NUMERIC(10,2)\<close> or \<open>DATE\<close>, a text too long for
    its column).
  Uniqueness of natural keys, conflict clauses, foreign keys, sequences and transactions
  are modelled below.  A sequence is taken to be ahead of the keys already in its table.
\<close>

record runtime =
  Date_ctor :: "jsval \<Rightarrow> js_date"
  ToString :: "jsval \<Rightarrow> string"
  prepareValue :: "jsval \<Rightarrow> string"
  number_add :: "jsval \<Rightarrow> jsval \<Rightarrow> jsval"
  lower_case :: "string \<Rightarrow> string"
  replace_white_space :: "string \<Rightarrow> string"
  store_rejects :: "stmt \<Rightarrow> bool"

text \<open>
  The state a run works on: the tables and sequences behind \<open>client\<close>, and the module-level
  \<open>stats\<close> object.
\<close>

record etl_state =
  dim_organization :: "organization_row list"
  dim_plan_type :: "plan_type_row list"
  dim_date :: "date_row list"
  dim_plan :: "plan_row list"
  dim_service :: "service_row list"
  fact_plan_costs :: "plan_cost_row list"
  fact_service_costs :: "service_cost_row list"
  etl_audit_log :: "audit_row list"
  org_key_seq :: int
  plan_type_key_seq :: int
  plan_key_seq :: int
  service_key_seq :: int
  plansExtracted :: nat
  plansLoaded :: nat
  servicesLoaded :: nat
  errors :: nat
  startTime :: "int option"
  endTime :: "int option"

record keys =
  org_key :: int
  plan_type_key :: int
  creation_date_key :: int
  plan_key :: int

type_synonym 'a action = "etl_state \<Rightarrow> (error + 'a) \<times> etl_state"

text \<open>Sequencing of awaited calls: an exception skips the rest and keeps the state reached.\<close>

definition andThen :: "'a action \<Rightarrow> ('a \<Rightarrow> 'b action) \<Rightarrow> 'b action" where
  "andThen m f s = (case m s of (Inl e, s') \<Rightarrow> (Inl e, s') | (Inr a, s') \<Rightarrow> f a s')"

definition return :: "'a \<Rightarrow> 'a action" where
  "return a s = (Inr a, s)"

definition lift :: "error + 'a \<Rightarrow> 'a action" where
  "lift r s = (r, s)"

subsection \<open>Coercions at the script's operators and at the driver\<close>

definition pg_text :: "runtime \<Rightarrow> jsval \<Rightarrow> string" where
  "pg_text rt v = (case v of Str s \<Rightarrow> s | _ \<Rightarrow> prepareValue rt v)"

definition js_string :: "runtime \<Rightarrow> jsval \<Rightarrow> string" where
  "js_string rt v = (case v of Str s \<Rightarrow> s | _ \<Rightarrow> ToString rt v)"

definition to_primitive_string :: "jsval \<Rightarrow> bool" where
  "to_primitive_string v =
     (case v of Str _ \<Rightarrow> True | Arr _ \<Rightarrow> True | Obj _ \<Rightarrow> True | DateObj _ \<Rightarrow> True
      | _ \<Rightarrow> False)"

text \<open>
  \<open>ToNumber\<close> of an operand that is not a string and not an object: whether it is \<open>NaN\<close>,
  and the integer it is, if it is one.
\<close>

definition to_number_is_NaN :: "jsval \<Rightarrow> bool" where
  "to_number_is_NaN v = (case v of Undefined \<Rightarrow> True | NaN \<Rightarrow> True | _ \<Rightarrow> False)"

definition to_number :: "jsval \<Rightarrow> int option" where
  "to_number v = (case v of Num n \<Rightarrow> Some n | Bool b \<Rightarrow> Some (if b then 1 else 0)
                   | Null \<Rightarrow> Some 0 | _ \<Rightarrow> None)"

text \<open>
  The integers that floating-point arithmetic adds without rounding: those of magnitude
  up to \<open>2 ^ 53\<close>.
\<close>

definition exact_integer :: "int \<Rightarrow> bool" where
  "exact_integer n = (\<bar>n\<bar> \<le> 9007199254740992)"

text \<open>
  The binary \<open>+\<close>: concatenation when either operand is a string or an object (whose
  primitive is a string), addition of numbers otherwise.  The sum of two integers is
  their arithmetic sum when the operands and the sum are exact; every other sum of
  numbers is the runtime's.
\<close>

definition js_add :: "runtime \<Rightarrow> jsval \<Rightarrow> jsval \<Rightarrow> jsval" where
  "js_add rt a b =
     (if to_primitive_string a \<or> to_primitive_string b
      then Str (js_string rt a @ js_string rt b)
      else if to_number_is_NaN a \<or> to_number_is_NaN b then NaN
      else (case (to_number a, to_number b) of
              (Some x, Some y) \<Rightarrow>
                if exact_integer x \<and> exact_integer y \<and> exact_integer (x + y)
                then Num (x + y) else number_add rt a b
            | _ \<Rightarrow> number_add rt a b))"

text \<open>\<open>s.toLowerCase()\<close> and \<open>s.replace(/\s+/g, '_')\<close> on a string.\<close>

definition toLowerCase :: "runtime \<Rightarrow> string \<Rightarrow> string" where
  "toLowerCase rt s = (if list_all is_ascii s then map lower_char s else lower_case rt s)"

definition replace_spaces :: "runtime \<Rightarrow> string \<Rightarrow> string" where
  "replace_spaces rt s =
     (if list_all is_ascii s then ascii_replace_spaces s else replace_white_space rt s)"

text \<open>\<open>v.toLowerCase()\<close> and \<open>v.toString()\<close> on a value of a document.\<close>

definition call_toLowerCase :: "runtime \<Rightarrow> jsval \<Rightarrow> error + string" where
  "call_toLowerCase rt v = (case v of Str s \<Rightarrow> Inr (toLowerCase rt s) | _ \<Rightarrow> Inl TypeError)"

definition call_toString :: "runtime \<Rightarrow> jsval \<Rightarrow> error + string" where
  "call_toString rt v =
     (case v of
        Undefined \<Rightarrow> Inl TypeError
      | Null \<Rightarrow> Inl TypeError
      | Str s \<Rightarrow> Inr s
      | Obj kvs \<Rightarrow> (case map_of kvs ''toString'' of
                      None \<Rightarrow> Inr (ToString rt v) | Some _ \<Rightarrow> Inl TypeError)
      | _ \<Rightarrow> Inr (ToString rt v))"

section \<open>The pipeline script: dimension resolution\<close>

subsection \<open>\<open>getOrCreateDateKey\<close>\<close>

definition select_date :: "string \<Rightarrow> etl_state \<Rightarrow> date_row option" where
  "select_date dateStr s = find (\<lambda>r. date_value r = dateStr) (dim_date s)"

text \<open>
  \<open>INSERT INTO dim_date ... ON CONFLICT (date_value) DO NOTHING RETURNING date_key\<close>: the
  returned rows.  \<open>date_key\<close> is the primary key, so a second row with the key of another
  date is refused.
\<close>

definition insert_date :: "runtime \<Rightarrow> date_row \<Rightarrow> int list action" where
  "insert_date rt row s =
     (if store_rejects rt (InsertDate row) then (Inl DbError, s)
      else if find (\<lambda>r. date_value r = date_value row) (dim_date s) \<noteq> None then (Inr [], s)
      else if find (\<lambda>r. date_key r = date_key row) (dim_date s) \<noteq> None then (Inl DbError, s)
      else (Inr [date_key row], s\<lparr>dim_date := dim_date s @ [row]\<rparr>))"

definition new_date_row :: "date_fields \<Rightarrow> int \<Rightarrow> string \<Rightarrow> date_row" where
  "new_date_row date dateKey dateStr =
     \<lparr>date_key = dateKey, date_value = dateStr,
      year = getFullYear date,
      quarter = getMonth date div 3 + 1,
      month = getMonth date + 1,
      month_name = month_long (getMonth date),
      day = getDate date,
      day_of_week = getDay date,
      day_name = weekday_long (getDay date),
      week_of_year = weekNumber date,
      is_weekend = (getDay date = 0 \<or> getDay date = 6)\<rparr>"

text \<open>\<open>dateValue instanceof Date ? dateValue : new Date(dateValue)\<close>.\<close>

definition date_of :: "runtime \<Rightarrow> jsval \<Rightarrow> js_date" where
  "date_of rt v = (case v of DateObj d \<Rightarrow> d | _ \<Rightarrow> Date_ctor rt v)"

text \<open>
  \<open>toISOString\<close> throws a \<open>RangeError\<close> on an invalid date.  A \<open>NaN\<close> key cannot be stored
  in the integer column.  \<open>rows[0].date_key\<close> on an empty result is a \<open>TypeError\<close>.
\<close>

definition getOrCreateDateKey :: "runtime \<Rightarrow> jsval \<Rightarrow> int action" where
  "getOrCreateDateKey rt dateValue s =
     (case date_of rt dateValue of
        InvalidDate \<Rightarrow> (Inl RangeError, s)
      | ValidDate date \<Rightarrow>
          (let dateStr = iso_date date in
           case select_date dateStr s of
             Some r \<Rightarrow> (Inr (date_key r), s)
           | None \<Rightarrow>
               (case generated_date_key date of
                  None \<Rightarrow> (Inl DbError, s)
                | Some dateKey \<Rightarrow>
                    andThen (insert_date rt (new_date_row date dateKey dateStr))
                      (\<lambda>rows s'. case rows of
                           k # _ \<Rightarrow> (Inr k, s')
                         | [] \<Rightarrow> (case select_date dateStr s' of
                                    Some r \<Rightarrow> (Inr (date_key r), s')
                                  | None \<Rightarrow> (Inl TypeError, s'))) s)))"

subsection \<open>\<open>loadDimensions\<close>\<close>

text \<open>
  \<open>INSERT INTO dim_organization ... ON CONFLICT (org_id) DO UPDATE SET org_name = EXCLUDED.org_name
  RETURNING org_key\<close>.  The sequence value is drawn before the conflict is seen.
\<close>

definition upsert_organization :: "runtime \<Rightarrow> string \<Rightarrow> string \<Rightarrow> int action" where
  "upsert_organization rt orgId orgName s =
     (if store_rejects rt (InsertOrganization orgId orgName) then (Inl DbError, s)
      else (case find (\<lambda>r. org_id r = orgId) (dim_organization s) of
              Some r \<Rightarrow>
                (Inr (o_key r),
                 s\<lparr>dim_organization :=
                      map (\<lambda>r. if org_id r = orgId then r\<lparr>org_name := orgName\<rparr> else r)
                          (dim_organization s),
                    org_key_seq := org_key_seq s + 1\<rparr>)
            | None \<Rightarrow>
                (Inr (org_key_seq s),
                 s\<lparr>dim_organization := dim_organization s
                      @ [\<lparr>o_key = org_key_seq s, org_id = orgId, org_name = orgName\<rparr>],
                    org_key_seq := org_key_seq s + 1\<rparr>)))"

text \<open>
  \<open>INSERT INTO dim_plan_type ... RETURNING plan_type_key\<close>, with no conflict clause: a code
  that is in the table is refused, \<open>plan_type_code\<close> being unique.
\<close>

definition insert_plan_type :: "runtime \<Rightarrow> string \<Rightarrow> string \<Rightarrow> int action" where
  "insert_plan_type rt code name s =
     (if store_rejects rt (InsertPlanType code name) then (Inl DbError, s)
      else if find (\<lambda>r. plan_type_code r = code) (dim_plan_type s) \<noteq> None
      then (Inl DbError, s)
      else (Inr (plan_type_key_seq s),
            s\<lparr>dim_plan_type := dim_plan_type s
                 @ [\<lparr>pt_key = plan_type_key_seq s, plan_type_code = code,
                     plan_type_name = name\<rparr>],
               plan_type_key_seq := plan_type_key_seq s + 1\<rparr>))"

text \<open>
  \<open>dim_plan\<close> references \<open>dim_plan_type\<close> and \<open>dim_organization\<close>: a row whose key is in
  neither is refused.
\<close>

definition plan_references :: "etl_state \<Rightarrow> int \<Rightarrow> int \<Rightarrow> bool" where
  "plan_references s ptk ok =
     (list_ex (\<lambda>r. pt_key r = ptk) (dim_plan_type s)
      \<and> list_ex (\<lambda>r. o_key r = ok) (dim_organization s))"

definition insert_plan :: "runtime \<Rightarrow> string \<Rightarrow> int \<Rightarrow> int \<Rightarrow> jsval \<Rightarrow> int action" where
  "insert_plan rt planId ptk ok creationDate s =
     (if store_rejects rt (InsertPlan planId ptk ok creationDate) then (Inl DbError, s)
      else if \<not> plan_references s ptk ok then (Inl DbError, s)
      else (Inr (plan_key_seq s),
            s\<lparr>dim_plan := dim_plan s
                 @ [\<lparr>p_key = plan_key_seq s, plan_id = planId, p_plan_type_key = ptk,
                     p_org_key = ok, is_current = True, effective_date = creationDate,
                     expiration_date = Null\<rparr>],
               plan_key_seq := plan_key_seq s + 1\<rparr>))"

text \<open>The four parts of \<open>loadDimensions\<close>, under the names of its comments.\<close>

definition organization_dimension :: "runtime \<Rightarrow> document \<Rightarrow> int action" where
  "organization_dimension rt plan =
     (let orgId = js_or (field plan ''_org'') (Str ''unknown'');
          orgName = js_or (field plan ''_org'') (Str ''Unknown Organization'')
      in upsert_organization rt (pg_text rt orgId) (pg_text rt orgName))"

definition plan_type_dimension :: "runtime \<Rightarrow> document \<Rightarrow> int action" where
  "plan_type_dimension rt plan =
     (let planType = js_or (field plan ''planType'') (Str ''unknown'')
      in andThen (lift (call_toLowerCase rt planType))
           (\<lambda>lowered s.
              let planTypeCode = replace_spaces rt lowered in
              case find (\<lambda>r. plan_type_code r = planTypeCode) (dim_plan_type s) of
                Some r \<Rightarrow> (Inr (pt_key r), s)
              | None \<Rightarrow> insert_plan_type rt planTypeCode (pg_text rt planType) s))"

definition date_dimension :: "runtime \<Rightarrow> date_fields \<Rightarrow> document \<Rightarrow> int action" where
  "date_dimension rt now plan =
     getOrCreateDateKey rt (js_or (field plan ''creationDate'') (DateObj (ValidDate now)))"

text \<open>\<open>plan.objectId || plan._id.toString()\<close>.\<close>

definition planId_of :: "runtime \<Rightarrow> document \<Rightarrow> error + jsval" where
  "planId_of rt plan =
     (if truthy (field plan ''objectId'') then Inr (field plan ''objectId'')
      else map_sum id Str (call_toString rt (field plan ''_id'')))"

definition plan_dimension :: "runtime \<Rightarrow> date_fields \<Rightarrow> document \<Rightarrow> int \<Rightarrow> int \<Rightarrow> int action" where
  "plan_dimension rt now plan ptk ok =
     andThen (lift (planId_of rt plan))
       (\<lambda>planId s.
          case find (\<lambda>r. plan_id r = pg_text rt planId) (dim_plan s) of
            Some r \<Rightarrow> (Inr (p_key r), s)
          | None \<Rightarrow> insert_plan rt (pg_text rt planId) ptk ok
                      (js_or (field plan ''creationDate'') (DateObj (ValidDate now))) s)"

text \<open>
  \<open>now\<close> is the date \<open>new Date()\<close> yields while this document is loaded; it is always a
  valid date.
\<close>

definition loadDimensions :: "runtime \<Rightarrow> date_fields \<Rightarrow> document \<Rightarrow> keys action" where
  "loadDimensions rt now plan =
     andThen (organization_dimension rt plan) (\<lambda>ok.
     andThen (plan_type_dimension rt plan) (\<lambda>ptk.
     andThen (date_dimension rt now plan) (\<lambda>dk.
     andThen (plan_dimension rt now plan ptk ok) (\<lambda>pk.
     return \<lparr>org_key = ok, plan_type_key = ptk, creation_date_key = dk, plan_key = pk\<rparr>))))"

section \<open>The pipeline script: facts\<close>

text \<open>
  The keys of a fact row are foreign keys: the statement is refused unless each of them is
  the key of a row of its dimension table.
\<close>

definition plan_cost_references :: "etl_state \<Rightarrow> plan_cost_row \<Rightarrow> bool" where
  "plan_cost_references s row =
     (list_ex (\<lambda>r. p_key r = fp_plan_key row) (dim_plan s)
      \<and> list_ex (\<lambda>r. pt_key r = fp_plan_type_key row) (dim_plan_type s)
      \<and> list_ex (\<lambda>r. o_key r = fp_org_key row) (dim_organization s)
      \<and> list_ex (\<lambda>r. date_key r = fp_creation_date_key row) (dim_date s))"

definition insert_plan_cost :: "runtime \<Rightarrow> plan_cost_row \<Rightarrow> unit action" where
  "insert_plan_cost rt row s =
     (if store_rejects rt (InsertPlanCost row) then (Inl DbError, s)
      else if \<not> plan_cost_references s row then (Inl DbError, s)
      else (Inr (), s\<lparr>fact_plan_costs := fact_plan_costs s @ [row]\<rparr>))"

text \<open>
  The row \<open>loadPlanFacts\<close> binds.  (The function also computes \<open>linkedServices\<close> and
  \<open>servicesCount\<close>, which it never uses and which cannot throw.)
\<close>

definition plan_cost_row_of :: "runtime \<Rightarrow> document \<Rightarrow> keys \<Rightarrow> plan_cost_row" where
  "plan_cost_row_of rt plan ks =
     (let deductible = js_or (optional (field plan ''planCostShares'') ''deductible'') (Num 0);
          copay = js_or (optional (field plan ''planCostShares'') ''copay'') (Num 0);
          totalCostShares = js_add rt deductible copay
      in \<lparr>fp_plan_key = plan_key ks, fp_plan_type_key = plan_type_key ks,
          fp_org_key = org_key ks, fp_creation_date_key = creation_date_key ks,
          fp_deductible = deductible, fp_copay = copay,
          total_cost_shares = totalCostShares\<rparr>)"

definition loadPlanFacts :: "runtime \<Rightarrow> document \<Rightarrow> keys \<Rightarrow> unit action" where
  "loadPlanFacts rt plan ks = insert_plan_cost rt (plan_cost_row_of rt plan ks)"

text \<open>
  \<open>INSERT INTO dim_service ... RETURNING service_key\<close>, with no conflict clause: an
  identifier that is in the table is refused, \<open>service_id\<close> being unique.
\<close>

definition insert_service :: "runtime \<Rightarrow> string \<Rightarrow> string \<Rightarrow> string \<Rightarrow> int action" where
  "insert_service rt sid name category s =
     (if store_rejects rt (InsertService sid name category) then (Inl DbError, s)
      else if find (\<lambda>r. service_id r = sid) (dim_service s) \<noteq> None then (Inl DbError, s)
      else (Inr (service_key_seq s),
            s\<lparr>dim_service := dim_service s
                 @ [\<lparr>service_key = service_key_seq s, service_id = sid, service_name = name,
                     service_category = category\<rparr>],
               service_key_seq := service_key_seq s + 1\<rparr>))"

definition service_cost_references :: "etl_state \<Rightarrow> service_cost_row \<Rightarrow> bool" where
  "service_cost_references s row =
     (list_ex (\<lambda>r. service_key r = fs_service_key row) (dim_service s)
      \<and> list_ex (\<lambda>r. p_key r = fs_plan_key row) (dim_plan s)
      \<and> list_ex (\<lambda>r. o_key r = fs_org_key row) (dim_organization s)
      \<and> list_ex (\<lambda>r. date_key r = fs_date_key row) (dim_date s))"

definition insert_service_cost :: "runtime \<Rightarrow> service_cost_row \<Rightarrow> unit action" where
  "insert_service_cost rt row s =
     (if store_rejects rt (InsertServiceCost row) then (Inl DbError, s)
      else if \<not> service_cost_references s row then (Inl DbError, s)
      else (Inr (), s\<lparr>fact_service_costs := fact_service_costs s @ [row]\<rparr>))"

text \<open>
  The name, the identifier and the cost row of one entry of \<open>linkedPlanServices\<close>.
  \<open>serviceData.name\<close> throws on an entry that is \<open>null\<close> or \<open>undefined\<close>; the later property
  reads are on an entry known to be neither.
\<close>

definition service_name_of :: "jsval \<Rightarrow> error + jsval" where
  "service_name_of serviceData =
     map_sum id (\<lambda>n. js_or n (Str ''Unknown Service'')) (member serviceData ''name'')"

definition service_id_of :: "runtime \<Rightarrow> jsval \<Rightarrow> jsval \<Rightarrow> error + jsval" where
  "service_id_of rt serviceData serviceName =
     (if truthy (optional serviceData ''objectId'') then Inr (optional serviceData ''objectId'')
      else map_sum id (\<lambda>l. Str (replace_spaces rt l)) (call_toLowerCase rt serviceName))"

definition service_cost_row_of :: "runtime \<Rightarrow> keys \<Rightarrow> jsval \<Rightarrow> int \<Rightarrow> service_cost_row" where
  "service_cost_row_of rt ks serviceData serviceKey =
     (let costShares = js_or (optional (optional serviceData ''linkedService'')
                                 ''planserviceCostShares'') (Obj []);
          serviceDeductible = js_or (optional costShares ''deductible'') (Num 0);
          serviceCopay = js_or (optional costShares ''copay'') (Num 0)
      in \<lparr>fs_service_key = serviceKey, fs_plan_key = plan_key ks, fs_org_key = org_key ks,
          fs_date_key = creation_date_key ks,
          fs_deductible = serviceDeductible, fs_copay = serviceCopay,
          total_service_cost = js_add rt serviceDeductible serviceCopay\<rparr>)"

text \<open>The body of the \<open>for ... of\<close> loop of \<open>loadServiceFacts\<close>.\<close>

definition service_fact :: "runtime \<Rightarrow> keys \<Rightarrow> jsval \<Rightarrow> unit action" where
  "service_fact rt ks serviceData =
     andThen (lift (service_name_of serviceData)) (\<lambda>serviceName.
     andThen (lift (service_id_of rt serviceData serviceName)) (\<lambda>serviceId.
     andThen (\<lambda>s. case find (\<lambda>r. service_id r = pg_text rt serviceId) (dim_service s) of
                     Some r \<Rightarrow> (Inr (service_key r), s)
                   | None \<Rightarrow> insert_service rt (pg_text rt serviceId) (pg_text rt serviceName)
                               ''Healthcare Service'' s) (\<lambda>serviceKey.
     andThen (insert_service_cost rt (service_cost_row_of rt ks serviceData serviceKey)) (\<lambda>_ s.
     (Inr (), s\<lparr>servicesLoaded := servicesLoaded s + 1\<rparr>)))))"

fun for_each :: "('a \<Rightarrow> unit action) \<Rightarrow> 'a list \<Rightarrow> unit action" where
  "for_each f [] s = (Inr (), s)"
| "for_each f (x # xs) s =
     (case f x s of (Inl e, s') \<Rightarrow> (Inl e, s') | (Inr _, s') \<Rightarrow> for_each f xs s')"

definition loadServiceFacts :: "runtime \<Rightarrow> document \<Rightarrow> keys \<Rightarrow> unit action" where
  "loadServiceFacts rt plan ks s =
     (case js_or (field plan ''linkedPlanServices'') (Arr []) of
        Arr linkedServices \<Rightarrow> for_each (service_fact rt ks) linkedServices s
      | _ \<Rightarrow> (Inr (), s))"

section \<open>The pipeline script: the run\<close>

text \<open>
  \<open>new Date(v).getTime()\<close> for \<open>v\<close> a number or \<open>null\<close>: \<open>null\<close> converts to the number 0.
\<close>

definition Date_of_time :: "int option \<Rightarrow> int" where
  "Date_of_time v = (case v of None \<Rightarrow> 0 | Some t \<Rightarrow> t)"

text \<open>
  The row \<open>logETLRun\<close> binds, read from \<open>stats\<close> as it is when the function is called.
  (\<open>executionTime\<close> is computed there too, but it is not bound to the statement.)
\<close>

definition audit_row_of :: "etl_state \<Rightarrow> audit_row" where
  "audit_row_of s =
     \<lparr>job_name = ''MongoDB to PostgreSQL ETL'', job_type = ''FULL_LOAD'',
      start_time = Date_of_time (startTime s),
      end_time = Date_of_time (endTime s),
      status = (if errors s = 0 then ''SUCCESS'' else ''PARTIAL_SUCCESS''),
      records_processed = plansExtracted s,
      records_inserted = plansLoaded s,
      records_updated = 0,
      records_failed = errors s,
      error_message = (if errors s > 0 then Some (show_nat (errors s) @ '' plans failed to load'')
                       else None)\<rparr>"

definition logETLRun :: "runtime \<Rightarrow> unit action" where
  "logETLRun rt s =
     (if store_rejects rt (InsertAudit (audit_row_of s)) then (Inl DbError, s)
      else (Inr (), s\<lparr>etl_audit_log := etl_audit_log s @ [audit_row_of s]\<rparr>))"

text \<open>
  \<open>ROLLBACK\<close> puts the tables back as they were at \<open>BEGIN\<close>; sequences and the script's own
  \<open>stats\<close> keep their values.
\<close>

definition rollback :: "etl_state \<Rightarrow> etl_state \<Rightarrow> etl_state" where
  "rollback at_begin s =
     s\<lparr>dim_organization := dim_organization at_begin,
       dim_plan_type := dim_plan_type at_begin,
       dim_date := dim_date at_begin,
       dim_plan := dim_plan at_begin,
       dim_service := dim_service at_begin,
       fact_plan_costs := fact_plan_costs at_begin,
       fact_service_costs := fact_service_costs at_begin,
       etl_audit_log := etl_audit_log at_begin\<rparr>"

text \<open>The statements between \<open>BEGIN\<close> and \<open>COMMIT\<close> for one document.\<close>

definition load_sequence :: "runtime \<Rightarrow> date_fields \<Rightarrow> document \<Rightarrow> unit action" where
  "load_sequence rt now plan =
     andThen (loadDimensions rt now plan) (\<lambda>ks.
     andThen (loadPlanFacts rt plan ks) (\<lambda>_.
     loadServiceFacts rt plan ks))"

text \<open>The body of the \<open>for\<close> loop of \<open>runETL\<close>, with its \<open>try\<close> and \<open>catch\<close>.\<close>

definition process_plan :: "runtime \<Rightarrow> date_fields \<Rightarrow> document \<Rightarrow> etl_state \<Rightarrow> etl_state" where
  "process_plan rt now plan s =
     (case load_sequence rt now plan s of
        (Inr _, s') \<Rightarrow> s'\<lparr>plansLoaded := plansLoaded s' + 1\<rparr>
      | (Inl e, s') \<Rightarrow> (rollback s s')\<lparr>errors := errors s' + 1\<rparr>)"

text \<open>\<open>clock i\<close> is the date \<open>new Date()\<close> yields while \<open>plans[i]\<close> is loaded.\<close>

fun load_plans :: "runtime \<Rightarrow> (nat \<Rightarrow> date_fields) \<Rightarrow> nat \<Rightarrow> document list \<Rightarrow> etl_state \<Rightarrow> etl_state" where
  "load_plans rt clock i [] s = s"
| "load_plans rt clock i (plan # plans) s =
     load_plans rt clock (Suc i) plans (process_plan rt (clock i) plan s)"

text \<open>
  What one invocation meets: whether \<open>mongoose.connect\<close> and \<open>pgPool.connect\<close> succeed, what
  \<open>Plan.find({}).lean()\<close> returns (\<open>None\<close> when it throws), and the readings of the clock.
  Once the client is connected, a statement fails only where the warehouse model says so;
  \<open>client.release\<close>, \<open>pgPool.end\<close> and \<open>mongoose.connection.close\<close> do not throw.
\<close>

record environment =
  mongo_up :: bool
  pg_up :: bool
  plans_found :: "document list option"
  now_start :: int
  now_end :: int
  today :: "nat \<Rightarrow> date_fields"

record connections =
  mongo_connected :: bool
  client_checked_out :: bool
  pool_ended :: bool

text \<open>The \<open>try\<close> block of \<open>runETL\<close>: its outcome, the state, and the connections it holds.\<close>

definition runETL_try :: "runtime \<Rightarrow> environment \<Rightarrow> etl_state
    \<Rightarrow> (error + unit) \<times> etl_state \<times> connections" where
  "runETL_try rt env s =
     (if \<not> mongo_up env
      then (Inl ConnectionError, s,
            \<lparr>mongo_connected = False, client_checked_out = False, pool_ended = False\<rparr>)
      else if \<not> pg_up env
      then (Inl ConnectionError, s,
            \<lparr>mongo_connected = True, client_checked_out = False, pool_ended = False\<rparr>)
      else (case plans_found env of
              None \<Rightarrow> (Inl ConnectionError, s,
                \<lparr>mongo_connected = True, client_checked_out = True, pool_ended = False\<rparr>)
            | Some plans \<Rightarrow>
                (let s1 = s\<lparr>plansExtracted := length plans\<rparr>;
                     s2 = load_plans rt (today env) 0 plans s1
                 in case logETLRun rt s2 of
                      (Inl e, s3) \<Rightarrow> (Inl e, s3,
                         \<lparr>mongo_connected = True, client_checked_out = True, pool_ended = False\<rparr>)
                    | (Inr _, s3) \<Rightarrow> (Inr (), s3\<lparr>endTime := Some (now_end env)\<rparr>,
                         \<lparr>mongo_connected = True, client_checked_out = True, pool_ended = False\<rparr>))))"

text \<open>
  \<open>runETL\<close>: the value the promise resolves to, the state left behind, and the connections
  after the \<open>finally\<close> block.  The \<open>catch\<close> block returns \<open>false\<close>; the \<open>try\<close> block has no
  \<open>return\<close>, so a run that reaches its end resolves to \<open>undefined\<close>.
\<close>

datatype settlement = Resolved jsval | Rejected error

record run =
  outcome :: settlement
  final :: etl_state
  conns :: connections

definition runETL :: "runtime \<Rightarrow> environment \<Rightarrow> etl_state \<Rightarrow> run" where
  "runETL rt env s =
     (case runETL_try rt env (s\<lparr>startTime := Some (now_start env)\<rparr>) of
        (r, s', c) \<Rightarrow>
          \<lparr>outcome = Resolved (case r of Inl _ \<Rightarrow> Bool False | Inr _ \<Rightarrow> Undefined),
           final = s',
           conns = \<lparr>mongo_connected = False,
                    client_checked_out = (if client_checked_out c then False
                                          else client_checked_out c),
                    pool_ended = True\<rparr>\<rparr>)"

text \<open>
  The script as a process: the module-level \<open>stats\<close> object is created, then \<open>runETL()\<close> is
  called and its promise is left alone.  Nothing calls \<open>process.exit\<close>, so the process ends
  when the event loop drains, with status 0 unless an exception or rejection went
  unhandled (status 1); \<open>runETL\<close> catches every exception of its \<open>try\<close> block.
\<close>

definition module_stats :: "etl_state \<Rightarrow> etl_state" where
  "module_stats s =
     s\<lparr>plansExtracted := 0, plansLoaded := 0, servicesLoaded := 0, errors := 0,
       startTime := None, endTime := None\<rparr>"

definition script :: "runtime \<Rightarrow> environment \<Rightarrow> etl_state \<Rightarrow> run" where
  "script rt env s = runETL rt env (module_stats s)"

definition exit_status :: "run \<Rightarrow> nat" where
  "exit_status r = (case outcome r of Resolved _ \<Rightarrow> 0 | Rejected _ \<Rightarrow> 1)"

section \<open>Notions used to state the properties\<close>

text \<open>
  The number of documents of a run whose load sequence throws, each taken in the state in
  which the loop reaches it.
\<close>

fun failures :: "runtime \<Rightarrow> (nat \<Rightarrow> date_fields) \<Rightarrow> nat \<Rightarrow> document list \<Rightarrow> etl_state \<Rightarrow> nat" where
  "failures rt clock i [] s = 0"
| "failures rt clock i (plan # plans) s =
     (if isl (fst (load_sequence rt (clock i) plan s)) then 1 else 0)
       + failures rt clock (Suc i) plans (process_plan rt (clock i) plan s)"

text \<open>The state in which the loop of a run over \<open>plans\<close> starts.\<close>

definition loop_start :: "environment \<Rightarrow> document list \<Rightarrow> etl_state \<Rightarrow> etl_state" where
  "loop_start env plans w =
     ((module_stats w)\<lparr>startTime := Some (now_start env)\<rparr>)\<lparr>plansExtracted := length plans\<rparr>"

text \<open>
  A date table is consistently keyed when every row's key is below \<open>10 ^ 8\<close> and its date
  text is the key written as \<open>YYYY-MM-DD\<close>.  The schema's \<open>populate_date_dimension\<close> fills
  the table this way (\<open>TO_CHAR(d, 'YYYYMMDD')::INTEGER\<close>).
\<close>

definition key_text :: "nat \<Rightarrow> string" where
  "key_text k = pad 4 (k div 10000) @ ''-'' @ pad 2 (k div 100 mod 100) @ ''-'' @ pad 2 (k mod 100)"

definition consistently_keyed :: "date_row \<Rightarrow> bool" where
  "consistently_keyed r =
     (0 \<le> date_key r \<and> date_key r < 100000000 \<and> date_value r = key_text (nat (date_key r)))"

definition date_keys_consistent :: "etl_state \<Rightarrow> bool" where
  "date_keys_consistent s = list_all consistently_keyed (dim_date s)"

text \<open>The year, month and day of a date written together as one decimal number.\<close>

definition YYYYMMDD :: "date_fields \<Rightarrow> int" where
  "YYYYMMDD d = utcFullYear d * 10000 + int (utcMonth d) * 100 + int (utcDate d)"

definition calendar_date :: "date_fields \<Rightarrow> bool" where
  "calendar_date d =
     (0 \<le> utcFullYear d \<and> utcFullYear d \<le> 9999 \<and> 1 \<le> utcMonth d \<and> utcMonth d \<le> 12
      \<and> 1 \<le> utcDate d \<and> utcDate d \<le> 31)"



text \<open>The tables of a state, without sequences and \<open>stats\<close>.\<close>

definition tables :: "etl_state \<Rightarrow>
    organization_row list \<times> plan_type_row list \<times> date_row list \<times> plan_row list
    \<times> service_row list \<times> plan_cost_row list \<times> service_cost_row list \<times> audit_row list" where
  "tables s =
     (dim_organization s, dim_plan_type s, dim_date s, dim_plan s, dim_service s,
      fact_plan_costs s, fact_service_costs s, etl_audit_log s)"

text \<open>An action leaves a component of the state alone.\<close>

definition keeps :: "(etl_state \<Rightarrow> 'x) \<Rightarrow> 'a action \<Rightarrow> bool" where
  "keeps f m = (\<forall>s. f (snd (m s)) = f s)"









text \<open>The components of the state that only \<open>runETL\<close> itself writes.\<close>

definition run_stats ::
    "etl_state \<Rightarrow> nat \<times> nat \<times> nat \<times> int option \<times> int option \<times> audit_row list" where
  "run_stats s =
     (plansExtracted s, plansLoaded s, errors s, startTime s, endTime s, etl_audit_log s)"

text \<open>A digit, seen as a character that none of the script's string operations removes.\<close>

definition plain_digit :: "char \<Rightarrow> bool" where
  "plain_digit c = (is_digit c \<and> c \<noteq> CHR ''-'' \<and> c \<noteq> CHR '':'' \<and> c \<noteq> CHR ''T''
      \<and> c \<noteq> CHR ''+'' \<and> \<not> is_space c)"










subsection \<open>Concrete inputs\<close>

definition date_2024_01_15 :: date_fields where
  "date_2024_01_15 =
     \<lparr>utcFullYear = 2024, utcMonth = 1, utcDate = 15, utcHours = 0, utcMinutes = 0,
      utcSeconds = 0, utcMilliseconds = 0, getFullYear = 2024, getMonth = 0, getDate = 15,
      getDay = 1, weekNumber = 3\<rparr>"

definition date_2031_01_01 :: date_fields where
  "date_2031_01_01 =
     \<lparr>utcFullYear = 2031, utcMonth = 1, utcDate = 1, utcHours = 9, utcMinutes = 30,
      utcSeconds = 0, utcMilliseconds = 0, getFullYear = 2031, getMonth = 0, getDate = 1,
      getDay = 3, weekNumber = 1\<rparr>"

definition date_2031_01_02 :: date_fields where
  "date_2031_01_02 =
     \<lparr>utcFullYear = 2031, utcMonth = 1, utcDate = 2, utcHours = 9, utcMinutes = 30,
      utcSeconds = 0, utcMilliseconds = 0, getFullYear = 2031, getMonth = 0, getDate = 2,
      getDay = 4, weekNumber = 1\<rparr>"

text \<open>
  The values a \<open>NUMERIC(10,2)\<close> column takes among integers and texts of digits: an integer
  below \<open>10 ^ 8\<close> in magnitude, and a text of one to eight digits, which the column reads
  as the number it writes.
\<close>

definition is_number :: "jsval \<Rightarrow> bool" where
  "is_number v = (case v of Num n \<Rightarrow> \<bar>n\<bar> < 100000000
                   | Str t \<Rightarrow> t \<noteq> [] \<and> length t \<le> 8 \<and> list_all is_digit t
                   | _ \<Rightarrow> False)"


text \<open>
  A runtime that parses the one date text used below, and a store that takes such
  values, and nothing else, in its measure columns.  The inputs below bind strings to the
  text columns and add no numbers but exact integers, so that \<open>prepareValue\<close>, \<open>number_add\<close>,
  \<open>lower_case\<close> and \<open>replace_white_space\<close> are not read; \<open>ToString\<close> is read only for the total
  of a row whose deductible the store refuses already.
\<close>

definition sample_runtime :: runtime where
  "sample_runtime =
     \<lparr>Date_ctor = (\<lambda>v. if v = Str ''2024-01-15'' then ValidDate date_2024_01_15
                        else InvalidDate),
      ToString = (\<lambda>v. ''[object Object]''),
      prepareValue = (\<lambda>v. ''{}''),
      number_add = (\<lambda>a b. NaN),
      lower_case = (\<lambda>t. t),
      replace_white_space = (\<lambda>t. t),
      store_rejects = (\<lambda>q. case q of
          InsertPlanCost r \<Rightarrow>
            \<not> (is_number (fp_deductible r) \<and> is_number (fp_copay r)
               \<and> is_number (total_cost_shares r))
        | InsertServiceCost r \<Rightarrow>
            \<not> (is_number (fs_deductible r) \<and> is_number (fs_copay r)
               \<and> is_number (total_service_cost r))
        | _ \<Rightarrow> False)\<rparr>"

definition empty_warehouse :: etl_state where
  "empty_warehouse =
     \<lparr>dim_organization = [], dim_plan_type = [], dim_date = [], dim_plan = [],
      dim_service = [], fact_plan_costs = [], fact_service_costs = [], etl_audit_log = [],
      org_key_seq = 1, plan_type_key_seq = 1, plan_key_seq = 1, service_key_seq = 1,
      plansExtracted = 0, plansLoaded = 0, servicesLoaded = 0, errors = 0,
      startTime = None, endTime = None\<rparr>"

definition plan_p1 :: document where
  "plan_p1 =
     [(''objectId'', Str ''p1''), (''_org'', Str ''acme''), (''planType'', Str ''inNetwork''),
      (''creationDate'', Str ''2024-01-15''),
      (''planCostShares'', Obj [(''deductible'', Num 2000), (''copay'', Num 23)]),
      (''linkedPlanServices'', Arr [])]"

text \<open>A document with a deductible that is not a number.\<close>

definition plan_bad_cost :: document where
  "plan_bad_cost =
     [(''objectId'', Str ''p2''), (''_org'', Str ''acme''), (''planType'', Str ''inNetwork''),
      (''creationDate'', Str ''2024-01-15''),
      (''planCostShares'', Obj [(''deductible'', Str ''abc''), (''copay'', Num 23)]),
      (''linkedPlanServices'', Arr [])]"











definition sample_environment :: environment where
  "sample_environment =
     \<lparr>mongo_up = True, pg_up = True, plans_found = Some [plan_p1, plan_bad_cost],
      now_start = 1700000000000, now_end = 1700000005000,
      today = (\<lambda>i. date_2031_01_01)\<rparr>"

definition single_flight :: "coordinator \<Rightarrow> bool" where
  "single_flight s = (live s \<le> 1 \<and> (etlRunning s = (live s = 1)))"

section \<open>Properties of the trigger coordinator\<close>

lemma exec_append:
  "exec s (es @ fs) = (case exec s es of None \<Rightarrow> None | Some s' \<Rightarrow> exec s' fs)"
  by (induction es arbitrary: s) (auto split: option.splits)

lemma step_single_flight:
  "single_flight s \<Longrightarrow> step s e = Some s' \<Longrightarrow> single_flight s'"
  by (cases e)
     (auto simp: single_flight_def runETL_watcher_def on_close_def on_error_def Let_def
           split: if_splits list.splits)

lemma exec_single_flight:
  "single_flight s \<Longrightarrow> exec s es = Some s' \<Longrightarrow> single_flight s'"
proof (induction es arbitrary: s)
  case Nil
  then show ?case by simp
next
  case (Cons e es)
  then show ?case by (auto split: option.splits dest: step_single_flight)
qed

lemma single_flight_initial: "single_flight initial_coordinator"
  by (simp add: single_flight_def initial_coordinator_def)

lemma exec_changes_while_running:
  "etlRunning s \<Longrightarrow> exec s (map Change ts) = Some (s\<lparr>etlQueue := etlQueue s @ ts\<rparr>)"
  by (induction ts arbitrary: s) (simp_all add: runETL_watcher_def)

lemma close_after_changes:
  assumes "etlRunning s" and "live s = 1"
  shows "exec s (map Change ts @ [Close c]) =
     Some (s\<lparr>etlRunning := False, etlQueue := [], live := 0,
             timers := timers s @ (if etlQueue s = [] \<and> ts = [] then [] else [2000])\<rparr>)"
  using assms
  by (simp add: exec_append exec_changes_while_running on_close_def Let_def)

lemma burst_two_runs:
  assumes "ts \<noteq> []"
  shows "exec initial_coordinator (Change t0 # map Change ts @ [Close c, Timer t]) =
     Some \<lparr>etlRunning = True, etlQueue = [], spawned = 2, live = 1, timers = []\<rparr>"
proof -
  let ?s1 = "\<lparr>etlRunning = True, etlQueue = [], spawned = 1, live = 1, timers = []\<rparr>"
  have a: "exec initial_coordinator (Change t0 # xs) = exec ?s1 xs" for xs
    by (simp add: initial_coordinator_def runETL_watcher_def)
  have b: "exec ?s1 (map Change ts) = Some (?s1\<lparr>etlQueue := ts\<rparr>)"
    using exec_changes_while_running [of ?s1 ts] by simp
  have c: "exec (?s1\<lparr>etlQueue := ts\<rparr>) [Close c, Timer t] =
     Some \<lparr>etlRunning = True, etlQueue = [], spawned = 2, live = 1, timers = []\<rparr>"
    using assms by (simp add: on_close_def Let_def runETL_watcher_def)
  show ?thesis
    by (simp only: a exec_append b c option.case)
qed

text \<open>
  C1.  Along every feasible sequence of events from the initial state at most one child
  is live, and \<open>etlRunning\<close> says exactly whether one is.  From any such state with a run in
  progress, any number of change notifications followed by the run's close spawns nothing,
  empties the queue and adds exactly one 2000 ms timer when something was queued (none
  when nothing was).  In particular a first notification, then \<open>N \<ge> 1\<close> notifications during
  its run, the close and the timer give exactly two spawns, however large \<open>N\<close> is.
\<close>

theorem notifications_during_run_collapse:
  assumes "exec initial_coordinator es = Some s"
  shows "live s \<le> 1 \<and> (etlRunning s = (live s = 1))
    \<and> (etlRunning s \<longrightarrow>
         (\<forall>ts c. \<exists>s'. exec s (map Change ts @ [Close c]) = Some s'
            \<and> spawned s' = spawned s \<and> live s' = 0 \<and> \<not> etlRunning s'
            \<and> etlQueue s' = []
            \<and> timers s' = timers s @ (if etlQueue s = [] \<and> ts = [] then [] else [2000])))
    \<and> (\<forall>t0 ts c t. ts \<noteq> [] \<longrightarrow>
         (\<exists>s2. exec initial_coordinator (Change t0 # map Change ts @ [Close c, Timer t]) = Some s2
            \<and> spawned s2 = 2 \<and> live s2 = 1 \<and> etlQueue s2 = [] \<and> timers s2 = []))"
proof -
  have sf: "single_flight s"
    using exec_single_flight [OF single_flight_initial assms] .
  have inv: "live s \<le> 1 \<and> (etlRunning s = (live s = 1))"
    using sf by (simp add: single_flight_def)
  have during: "etlRunning s \<longrightarrow>
         (\<forall>ts c. \<exists>s'. exec s (map Change ts @ [Close c]) = Some s'
            \<and> spawned s' = spawned s \<and> live s' = 0 \<and> \<not> etlRunning s'
            \<and> etlQueue s' = []
            \<and> timers s' = timers s @ (if etlQueue s = [] \<and> ts = [] then [] else [2000]))"
  proof (intro impI allI)
    fix ts c
    assume r: "etlRunning s"
    then have l: "live s = 1" using inv by simp
    show "\<exists>s'. exec s (map Change ts @ [Close c]) = Some s'
            \<and> spawned s' = spawned s \<and> live s' = 0 \<and> \<not> etlRunning s'
            \<and> etlQueue s' = []
            \<and> timers s' = timers s @ (if etlQueue s = [] \<and> ts = [] then [] else [2000])"
      using close_after_changes [OF r l, of ts c] by simp
  qed
  have burst: "\<forall>t0 ts c t. ts \<noteq> [] \<longrightarrow>
         (\<exists>s2. exec initial_coordinator (Change t0 # map Change ts @ [Close c, Timer t]) = Some s2
            \<and> spawned s2 = 2 \<and> live s2 = 1 \<and> etlQueue s2 = [] \<and> timers s2 = [])"
    using burst_two_runs by simp
  show ?thesis using inv during burst by blast
qed

theorem notifications_during_run_collapse_witness:
  "exec initial_coordinator [Change 10, Change 11, Change 12] =
      Some \<lparr>etlRunning = True, etlQueue = [11, 12], spawned = 1, live = 1, timers = []\<rparr>
   \<and> live \<lparr>etlRunning = True, etlQueue = [11, 12], spawned = 1, live = 1, timers = []\<rparr> \<le> 1
   \<and> (\<exists>s'. exec \<lparr>etlRunning = True, etlQueue = [11, 12], spawned = 1, live = 1, timers = []\<rparr>
              (map Change [13, 14, 15] @ [Close 0]) = Some s'
         \<and> spawned s' = 1 \<and> etlQueue s' = [] \<and> timers s' = [2000])"
proof -
  let ?s = "\<lparr>etlRunning = True, etlQueue = [11, 12], spawned = 1, live = 1, timers = []\<rparr>"
  have e: "exec initial_coordinator [Change 10, Change 11, Change 12] = Some ?s"
    by (simp add: initial_coordinator_def runETL_watcher_def)
  note t = notifications_during_run_collapse [OF e]
  have a: "live ?s \<le> 1"
    using t by (rule conjunct1)
  have "etlRunning ?s \<longrightarrow>
         (\<forall>ts c. \<exists>s'. exec ?s (map Change ts @ [Close c]) = Some s'
            \<and> spawned s' = spawned ?s \<and> live s' = 0 \<and> \<not> etlRunning s'
            \<and> etlQueue s' = []
            \<and> timers s' = timers ?s @ (if etlQueue ?s = [] \<and> ts = [] then [] else [2000]))"
    using t by (elim conjE)
  then have "\<exists>s'. exec ?s (map Change [13, 14, 15] @ [Close 0]) = Some s'
            \<and> spawned s' = spawned ?s \<and> live s' = 0 \<and> \<not> etlRunning s'
            \<and> etlQueue s' = []
            \<and> timers s' = timers ?s @ (if etlQueue ?s = [] \<and> [13, 14, 15] = ([]::int list) then [] else [2000])"
    by (simp del: exec.simps map_append list.map append.simps)
  then obtain s' where
    "exec ?s (map Change [13, 14, 15] @ [Close 0]) = Some s'"
    "spawned s' = spawned ?s" "etlQueue s' = []"
    "timers s' = timers ?s @ (if etlQueue ?s = [] \<and> [13, 14, 15] = ([]::int list) then [] else [2000])"
    by blast
  then have b: "\<exists>s'. exec ?s (map Change [13, 14, 15] @ [Close 0]) = Some s'
         \<and> spawned s' = 1 \<and> etlQueue s' = [] \<and> timers s' = [2000]"
    by (intro exI [of _ s']) simp
  show ?thesis using e a b by (intro conjI)
qed

text \<open>
  C9.  When the connection opens and the change stream is created, \<open>setupChangeStream\<close>
  called in the initial state (nothing running, nothing queued, no notification handled
  yet) spawns the pipeline once, at once.
\<close>

theorem startup_runs_initial_etl:
  "setupChangeStream Opened True now initial_coordinator =
     Watching \<lparr>etlRunning = True, etlQueue = [], spawned = 1, live = 1, timers = []\<rparr>"
  by (simp add: setupChangeStream_def initial_coordinator_def runETL_watcher_def)

section \<open>Properties of the pipeline script\<close>

subsection \<open>Sequencing and frames\<close>

lemma andThen_Inr: "m s = (Inr a, s') \<Longrightarrow> andThen m f s = f a s'"
  by (simp add: andThen_def)

lemma andThen_Inl: "m s = (Inl e, s') \<Longrightarrow> andThen m f s = (Inl e, s')"
  by (simp add: andThen_def)


lemma keepsI: "(\<And>s. f (snd (m s)) = f s) \<Longrightarrow> keeps f m"
  by (simp add: keeps_def)

lemma keepsD: "keeps f m \<Longrightarrow> m s = (r, s') \<Longrightarrow> f s' = f s"
  by (auto simp: keeps_def dest: spec [of _ s])

lemma keeps_andThen:
  assumes "keeps f m" and "\<And>a. keeps f (g a)"
  shows "keeps f (andThen m g)"
proof (rule keepsI)
  fix s
  obtain r s' where m: "m s = (r, s')" by (cases "m s")
  have 1: "f s' = f s" using keepsD [OF assms(1) m] .
  show "f (snd (andThen m g s)) = f s"
  proof (cases r)
    case (Inl e)
    then show ?thesis using m 1 by (simp add: andThen_def)
  next
    case (Inr a)
    obtain r2 s2 where g: "g a s' = (r2, s2)" by (cases "g a s'")
    have "f s2 = f s'" using keepsD [OF assms(2) g] .
    then show ?thesis using m Inr 1 g by (simp add: andThen_def)
  qed
qed

lemma keeps_lift: "keeps f (lift r)"
  by (simp add: keeps_def lift_def)

lemma keeps_return: "keeps f (return r)"
  by (simp add: keeps_def return_def)



lemma keeps_upsert_organization: "keeps run_stats (upsert_organization rt a b)"
  by (simp add: keeps_def upsert_organization_def run_stats_def split: option.splits)

lemma keeps_organization_dimension: "keeps run_stats (organization_dimension rt plan)"
  by (simp add: organization_dimension_def Let_def keeps_upsert_organization)

lemma keeps_plan_type_dimension: "keeps run_stats (plan_type_dimension rt plan)"
  unfolding plan_type_dimension_def Let_def
  by (intro keeps_andThen keeps_lift)
     (simp add: keeps_def insert_plan_type_def run_stats_def split: option.splits)

lemma keeps_getOrCreateDateKey: "keeps run_stats (getOrCreateDateKey rt v)"
  by (simp add: keeps_def getOrCreateDateKey_def insert_date_def andThen_def Let_def select_date_def
        run_stats_def split: option.splits js_date.splits list.splits)

lemma keeps_plan_dimension: "keeps run_stats (plan_dimension rt now plan a b)"
  unfolding plan_dimension_def
  by (intro keeps_andThen keeps_lift)
     (simp add: keeps_def insert_plan_def run_stats_def split: option.splits)

lemma keeps_loadDimensions: "keeps run_stats (loadDimensions rt now plan)"
  unfolding loadDimensions_def date_dimension_def
  by (intro keeps_andThen keeps_return keeps_organization_dimension keeps_plan_type_dimension
        keeps_getOrCreateDateKey keeps_plan_dimension)

lemma keeps_loadPlanFacts: "keeps run_stats (loadPlanFacts rt plan ks)"
  by (simp add: keeps_def loadPlanFacts_def insert_plan_cost_def run_stats_def)

lemma keeps_service_fact: "keeps run_stats (service_fact rt ks e)"
  unfolding service_fact_def
  by (intro keeps_andThen keeps_lift)
     (simp_all add: keeps_def insert_service_def insert_service_cost_def run_stats_def
        split: option.splits)

lemma for_each_keeps:
  assumes "\<And>x. keeps f (g x)"
  shows "keeps f (for_each g xs)"
proof (rule keepsI)
  fix s
  show "f (snd (for_each g xs s)) = f s"
  proof (induction xs arbitrary: s)
    case Nil
    then show ?case by simp
  next
    case (Cons x xs)
    obtain r s' where g: "g x s = (r, s')" by (cases "g x s")
    have 1: "f s' = f s" using keepsD [OF assms g] .
    show ?case using g 1 Cons.IH [of s'] by (cases r) simp_all
  qed
qed







lemma keeps_loadServiceFacts: "keeps run_stats (loadServiceFacts rt plan ks)"
proof (rule keepsI)
  fix s
  show "run_stats (snd (loadServiceFacts rt plan ks s)) = run_stats s"
    using for_each_keeps [of run_stats "service_fact rt ks", OF keeps_service_fact]
    by (simp add: loadServiceFacts_def keeps_def split: jsval.splits)
qed

lemma keeps_load_sequence: "keeps run_stats (load_sequence rt now plan)"
  unfolding load_sequence_def
  by (intro keeps_andThen keeps_loadDimensions keeps_loadPlanFacts keeps_loadServiceFacts)

lemma process_plan_stats:
  "plansExtracted (process_plan rt now plan s) = plansExtracted s"
  "startTime (process_plan rt now plan s) = startTime s"
  "endTime (process_plan rt now plan s) = endTime s"
  "etl_audit_log (process_plan rt now plan s) = etl_audit_log s"
  "errors (process_plan rt now plan s)
     = errors s + (if isl (fst (load_sequence rt now plan s)) then 1 else 0)"
  "plansLoaded (process_plan rt now plan s)
     = plansLoaded s + (if isl (fst (load_sequence rt now plan s)) then 0 else 1)"
proof -
  obtain r s' where l: "load_sequence rt now plan s = (r, s')"
    by (cases "load_sequence rt now plan s")
  have k: "run_stats s' = run_stats s"
    using keepsD [OF keeps_load_sequence l] .
  show "plansExtracted (process_plan rt now plan s) = plansExtracted s"
    "startTime (process_plan rt now plan s) = startTime s"
    "endTime (process_plan rt now plan s) = endTime s"
    "etl_audit_log (process_plan rt now plan s) = etl_audit_log s"
    "errors (process_plan rt now plan s)
       = errors s + (if isl (fst (load_sequence rt now plan s)) then 1 else 0)"
    "plansLoaded (process_plan rt now plan s)
       = plansLoaded s + (if isl (fst (load_sequence rt now plan s)) then 0 else 1)"
    using l k by (cases r; simp add: process_plan_def rollback_def run_stats_def)+
qed

lemma process_plan_rolls_back:
  "isl (fst (load_sequence rt now plan s)) \<Longrightarrow> tables (process_plan rt now plan s) = tables s"
  by (cases "load_sequence rt now plan s")
     (auto simp: process_plan_def rollback_def tables_def isl_def)

lemma failures_le: "failures rt clock i plans s \<le> length plans"
  by (induction plans arbitrary: i s) (simp_all add: le_SucI)

lemma load_plans_stats:
  "plansExtracted (load_plans rt clock i plans s) = plansExtracted s
   \<and> startTime (load_plans rt clock i plans s) = startTime s
   \<and> endTime (load_plans rt clock i plans s) = endTime s
   \<and> etl_audit_log (load_plans rt clock i plans s) = etl_audit_log s
   \<and> errors (load_plans rt clock i plans s) = errors s + failures rt clock i plans s
   \<and> plansLoaded (load_plans rt clock i plans s) + failures rt clock i plans s
       = plansLoaded s + length plans"
proof (induction plans arbitrary: i s)
  case Nil
  then show ?case by simp
next
  case (Cons p ps)
  show ?case
    using Cons.IH [of "Suc i" "process_plan rt (clock i) p s"]
    by (simp add: process_plan_stats)
qed

subsection \<open>Digits and dates\<close>

lemma of_char_digit_char: "n < 10 \<Longrightarrow> (of_char (digit_char n) :: nat) = 48 + n"
  by (simp add: digit_char_def)

lemma digit_char_props:
  assumes "n < 10"
  shows "is_digit (digit_char n)" and "digit_val (digit_char n) = n"
    and "digit_char n \<noteq> CHR ''-''" and "digit_char n \<noteq> CHR '':''"
    and "digit_char n \<noteq> CHR ''T''" and "digit_char n \<noteq> CHR ''+''"
    and "\<not> is_space (digit_char n)"
proof -
  note o = of_char_digit_char [OF assms]
  show "is_digit (digit_char n)" using assms by (simp add: is_digit_def o)
  show "digit_val (digit_char n) = n" by (simp add: digit_val_def o)
  show "\<not> is_space (digit_char n)" by (simp add: is_space_def o)
  have "(of_char (digit_char n) :: nat) \<noteq> of_char (CHR ''-'')" by (simp add: o)
  then show "digit_char n \<noteq> CHR ''-''" by metis
  have "(of_char (digit_char n) :: nat) \<noteq> of_char (CHR '':'')" using assms by (simp add: o)
  then show "digit_char n \<noteq> CHR '':''" by metis
  have "(of_char (digit_char n) :: nat) \<noteq> of_char (CHR ''T'')" using assms by (simp add: o)
  then show "digit_char n \<noteq> CHR ''T''" by metis
  have "(of_char (digit_char n) :: nat) \<noteq> of_char (CHR ''+'')" by (simp add: o)
  then show "digit_char n \<noteq> CHR ''+''" by metis
qed

lemma plain_digit_char: "plain_digit (digit_char (n mod 10))"
  by (simp add: plain_digit_def digit_char_props)

lemma pad_plain: "list_all plain_digit (pad w n)"
  by (induction w arbitrary: n) (simp_all add: plain_digit_char)

lemma length_pad: "length (pad w n) = w"
  by (induction w arbitrary: n) simp_all

lemma pad_value:
  "foldl (\<lambda>a c. 10 * a + digit_val c) a (pad w n) = a * 10 ^ w + n mod 10 ^ w"
proof (induction w arbitrary: n a)
  case 0
  then show ?case by simp
next
  case (Suc w)
  have m: "n div 10 mod 10 ^ w * 10 + n mod 10 = n mod (10 * 10 ^ w)"
    by (metis mod_mult2_eq mult.commute add.commute)
  have "foldl (\<lambda>a c. 10 * a + digit_val c) a (pad (Suc w) n)
      = 10 * (a * 10 ^ w + n div 10 mod 10 ^ w) + n mod 10"
    by (simp add: Suc.IH digit_char_props)
  also have "\<dots> = a * 10 ^ Suc w + n mod 10 ^ Suc w"
    using m by (simp add: algebra_simps)
  finally show ?case .
qed

lemma pad_inject:
  assumes "pad w a = pad w b" and "a < 10 ^ w" and "b < 10 ^ w"
  shows "a = b"
proof -
  have "foldl (\<lambda>a c. 10 * a + digit_val c) 0 (pad w a)
      = foldl (\<lambda>a c. 10 * a + digit_val c) 0 (pad w b)"
    using assms(1) by simp
  then show ?thesis using assms(2,3) by (simp add: pad_value)
qed

lemma pad_not: "c \<in> set (pad w n) \<Longrightarrow> plain_digit c"
  using pad_plain [of w n] by (simp add: list_all_iff)

lemma takeWhile_pad:
  "takeWhile (\<lambda>c. c \<noteq> CHR ''T'') (pad w n @ xs) = pad w n @ takeWhile (\<lambda>c. c \<noteq> CHR ''T'') xs"
  by (rule takeWhile_append2) (auto dest: pad_not simp: plain_digit_def)

lemma filter_pad:
  "filter (\<lambda>c. c \<noteq> CHR ''-'' \<and> c \<noteq> CHR '':'') (pad w n) = pad w n"
  by (rule filter_True) (auto dest: pad_not simp: plain_digit_def)

lemma iso_year_calendar: "calendar_date d \<Longrightarrow> iso_year (utcFullYear d) = pad 4 (nat (utcFullYear d))"
  by (simp add: iso_year_def calendar_date_def)

lemma iso_date_calendar:
  assumes "calendar_date d"
  shows "iso_date d = pad 4 (nat (utcFullYear d)) @ ''-'' @ pad 2 (utcMonth d) @ ''-'' @ pad 2 (utcDate d)"
  by (simp add: iso_date_def toISOString_def iso_year_calendar [OF assms] takeWhile_pad
        del: pad.simps)

lemma date_digits:
  assumes "calendar_date d"
  shows "take 8 (filter (\<lambda>c. c \<noteq> CHR ''-'' \<and> c \<noteq> CHR '':'') (toISOString d))
     = pad 4 (nat (utcFullYear d)) @ pad 2 (utcMonth d) @ pad 2 (utcDate d)"
  by (simp add: toISOString_def iso_year_calendar [OF assms] filter_pad length_pad
        del: pad.simps)

lemma parseInt_digits:
  assumes "list_all plain_digit ds" and "ds \<noteq> []"
  shows "parseInt ds = Some (int (foldl (\<lambda>a c. 10 * a + digit_val c) 0 ds))"
proof -
  obtain c cs where ds: "ds = c # cs" using assms(2) by (cases ds) auto
  have c: "plain_digit c" using assms(1) ds by simp
  have d: "dropWhile is_space ds = ds"
    using c ds by (simp add: plain_digit_def)
  have t: "takeWhile is_digit ds = ds"
    using assms(1) by (simp add: takeWhile_eq_all_conv list_all_iff plain_digit_def)
  have neg: "(case ds of [] \<Rightarrow> False | c # _ \<Rightarrow> c = CHR ''-'') = False"
    using c by (simp add: ds plain_digit_def)
  have r: "(case ds of [] \<Rightarrow> [] | c # cs \<Rightarrow> if c = CHR ''-'' \<or> c = CHR ''+'' then cs else ds) = ds"
    using c by (simp add: ds plain_digit_def)
  show ?thesis
    unfolding parseInt_def Let_def d neg r t using assms(2) by simp
qed

lemma generated_date_key_calendar:
  assumes "calendar_date d"
  shows "generated_date_key d = Some (YYYYMMDD d)"
proof -
  let ?ds = "pad 4 (nat (utcFullYear d)) @ pad 2 (utcMonth d) @ pad 2 (utcDate d)"
  have p: "list_all plain_digit ?ds" by (simp add: pad_plain del: pad.simps)
  have n: "?ds \<noteq> []" using length_pad [of 4 "nat (utcFullYear d)"] by (auto simp del: pad.simps)
  have v: "foldl (\<lambda>a c. 10 * a + digit_val c) 0 ?ds
      = (nat (utcFullYear d) mod 10 ^ 4 * 10 ^ 2 + utcMonth d mod 10 ^ 2) * 10 ^ 2
          + utcDate d mod 10 ^ 2"
    by (simp add: pad_value del: pad.simps)
  have b: "nat (utcFullYear d) < 10 ^ 4" "utcMonth d < 10 ^ 2" "utcDate d < 10 ^ 2"
    "0 \<le> utcFullYear d"
    using assms unfolding calendar_date_def by auto
  have "int (foldl (\<lambda>a c. 10 * a + digit_val c) 0 ?ds) = YYYYMMDD d"
    unfolding v using b by (simp add: YYYYMMDD_def)
  then show ?thesis
    unfolding generated_date_key_def date_digits [OF assms]
    using parseInt_digits [OF p n] by simp
qed

lemma mod_lin: "d < b \<Longrightarrow> (q * b + d) mod b = (d::nat)"
  by simp

lemma div_lin: "d < b \<Longrightarrow> (q * b + d) div b = (q::nat)"
  by simp

lemma YYYYMMDD_parts:
  assumes "calendar_date d"
  shows "0 \<le> YYYYMMDD d" and "YYYYMMDD d < 100000000"
    and "nat (YYYYMMDD d) div 10000 = nat (utcFullYear d)"
    and "nat (YYYYMMDD d) div 100 mod 100 = utcMonth d"
    and "nat (YYYYMMDD d) mod 100 = utcDate d"
proof -
  define y where "y = nat (utcFullYear d)"
  have y: "utcFullYear d = int y" "y \<le> 9999" "utcMonth d \<le> 12" "utcDate d \<le> 31"
    using assms unfolding calendar_date_def y_def by auto
  have n: "nat (YYYYMMDD d) = y * 10000 + utcMonth d * 100 + utcDate d"
    by (simp add: YYYYMMDD_def y nat_add_distrib nat_mult_distrib)
  show "0 \<le> YYYYMMDD d" by (simp add: YYYYMMDD_def y)
  show "YYYYMMDD d < 100000000" using y by (simp add: YYYYMMDD_def)
  have lo: "utcMonth d * 100 + utcDate d < 10000" using y(3,4) by simp
  have n1: "nat (YYYYMMDD d) = y * 10000 + (utcMonth d * 100 + utcDate d)"
    unfolding n by simp
  have n2: "nat (YYYYMMDD d) = (y * 100 + utcMonth d) * 100 + utcDate d"
    unfolding n by simp
  have dd: "utcDate d < 100" "utcMonth d < 100" using y(3,4) by simp_all
  have q: "nat (YYYYMMDD d) div 100 = y * 100 + utcMonth d"
    unfolding n2 by (rule div_lin [OF dd(1)])
  show "nat (YYYYMMDD d) div 10000 = nat (utcFullYear d)"
    unfolding n1 y_def [symmetric] by (rule div_lin [OF lo])
  show "nat (YYYYMMDD d) div 100 mod 100 = utcMonth d"
    unfolding q by (rule mod_lin [OF dd(2)])
  show "nat (YYYYMMDD d) mod 100 = utcDate d"
    unfolding n2 by (rule mod_lin [OF dd(1)])
qed

lemma iso_date_key_text:
  assumes "calendar_date d"
  shows "iso_date d = key_text (nat (YYYYMMDD d))"
  by (simp add: iso_date_calendar [OF assms] key_text_def YYYYMMDD_parts [OF assms]
        del: pad.simps)

lemma key_text_inject:
  assumes "key_text a = key_text b" and "a < 100000000" and "b < 100000000"
  shows "a = b"
proof -
  have e: "pad 4 (a div 10000) @ ''-'' @ pad 2 (a div 100 mod 100) @ ''-'' @ pad 2 (a mod 100)
      = pad 4 (b div 10000) @ ''-'' @ pad 2 (b div 100 mod 100) @ ''-'' @ pad 2 (b mod 100)"
    using assms(1) by (simp add: key_text_def del: pad.simps)
  have 1: "pad 4 (a div 10000) = pad 4 (b div 10000)"
    and r: "''-'' @ pad 2 (a div 100 mod 100) @ ''-'' @ pad 2 (a mod 100)
          = ''-'' @ pad 2 (b div 100 mod 100) @ ''-'' @ pad 2 (b mod 100)"
    using e by (simp_all add: append_eq_append_conv length_pad del: pad.simps)
  have 2: "pad 2 (a div 100 mod 100) = pad 2 (b div 100 mod 100)"
    and 3: "pad 2 (a mod 100) = pad 2 (b mod 100)"
    using r by (simp_all add: append_eq_append_conv length_pad del: pad.simps)
  have y: "a div 10000 = b div 10000"
    using pad_inject [OF 1] assms(2,3) by simp
  have m: "a div 100 mod 100 = b div 100 mod 100"
    using pad_inject [OF 2] by simp
  have d: "a mod 100 = b mod 100"
    using pad_inject [OF 3] by simp
  have "a div 100 = b div 100"
  proof -
    have "a div 100 = (a div 100 div 100) * 100 + a div 100 mod 100" by simp
    also have "a div 100 div 100 = a div 10000" by (simp add: div_mult2_eq)
    finally have A: "a div 100 = a div 10000 * 100 + a div 100 mod 100" .
    have "b div 100 = (b div 100 div 100) * 100 + b div 100 mod 100" by simp
    also have "b div 100 div 100 = b div 10000" by (simp add: div_mult2_eq)
    finally have B: "b div 100 = b div 10000 * 100 + b div 100 mod 100" .
    show ?thesis using A B y m by simp
  qed
  then show ?thesis using d by (metis div_mult_mod_eq)
qed

lemma find_append:
  "find P (xs @ ys) = (case find P xs of None \<Rightarrow> find P ys | Some x \<Rightarrow> Some x)"
  by (induction xs) simp_all

lemma getOrCreateDateKey_found:
  assumes "date_of rt v = ValidDate d" and "select_date (iso_date d) s = Some r"
  shows "getOrCreateDateKey rt v s = (Inr (date_key r), s)"
  using assms by (simp add: getOrCreateDateKey_def Let_def)

lemma getOrCreateDateKey_rejected:
  assumes "date_of rt v = ValidDate d" and "select_date (iso_date d) s = None"
    and "generated_date_key d = Some k"
    and "store_rejects rt (InsertDate (new_date_row d k (iso_date d)))"
  shows "getOrCreateDateKey rt v s = (Inl DbError, s)"
  using assms by (simp add: getOrCreateDateKey_def Let_def andThen_def insert_date_def)

lemma getOrCreateDateKey_new:
  assumes "date_of rt v = ValidDate d" and "select_date (iso_date d) s = None"
    and "generated_date_key d = Some k"
    and "\<not> store_rejects rt (InsertDate (new_date_row d k (iso_date d)))"
    and "find (\<lambda>r. date_key r = k) (dim_date s) = None"
  shows "getOrCreateDateKey rt v s =
     (Inr k, s\<lparr>dim_date := dim_date s @ [new_date_row d k (iso_date d)]\<rparr>)"
  using assms
  by (simp add: getOrCreateDateKey_def Let_def andThen_def insert_date_def select_date_def
        new_date_row_def)

lemma consistent_key_of_date:
  assumes "consistently_keyed r" and "calendar_date d" and "date_value r = iso_date d"
  shows "date_key r = YYYYMMDD d"
proof -
  have "key_text (nat (date_key r)) = key_text (nat (YYYYMMDD d))"
    using assms by (simp add: consistently_keyed_def iso_date_key_text)
  moreover have "nat (date_key r) < 100000000" "nat (YYYYMMDD d) < 100000000"
    using assms(1) YYYYMMDD_parts(1,2) [OF assms(2)] unfolding consistently_keyed_def by auto
  ultimately have "nat (date_key r) = nat (YYYYMMDD d)"
    by (rule key_text_inject)
  then show ?thesis
    using assms(1) YYYYMMDD_parts(1) [OF assms(2)] unfolding consistently_keyed_def by auto
qed

lemma new_row_consistent:
  "calendar_date d \<Longrightarrow> consistently_keyed (new_date_row d (YYYYMMDD d) (iso_date d))"
  by (simp add: consistently_keyed_def new_date_row_def YYYYMMDD_parts iso_date_key_text)

lemma same_day_iso_date:
  assumes "calendar_date d" and "utcFullYear d' = utcFullYear d" and "utcMonth d' = utcMonth d"
    and "utcDate d' = utcDate d"
  shows "iso_date d' = iso_date d"
proof -
  have "calendar_date d'" using assms by (simp add: calendar_date_def)
  then show ?thesis using assms by (simp add: iso_date_calendar del: pad.simps)
qed


subsection \<open>Evaluating the script on the concrete inputs\<close>

lemmas etl_defs = load_sequence_def loadDimensions_def organization_dimension_def
  plan_type_dimension_def date_dimension_def plan_dimension_def loadPlanFacts_def
  loadServiceFacts_def service_fact_def upsert_organization_def insert_plan_type_def
  insert_plan_def insert_plan_cost_def insert_service_def insert_service_cost_def
  getOrCreateDateKey_def insert_date_def select_date_def new_date_row_def date_of_def
  plan_cost_row_of_def service_cost_row_of_def service_name_of_def service_id_of_def
  andThen_def return_def lift_def js_or_def truthy_def field_def optional_def member_def
  pg_text_def js_add_def js_string_def to_primitive_string_def to_number_def
  to_number_is_NaN_def exact_integer_def plan_references_def plan_cost_references_def
  service_cost_references_def call_toLowerCase_def call_toString_def planId_of_def Let_def

lemma sample_runtime_simps:
  "Date_ctor sample_runtime v =
     (if v = Str ''2024-01-15'' then ValidDate date_2024_01_15 else InvalidDate)"
  "ToString sample_runtime v = ''[object Object]''"
  "prepareValue sample_runtime v = ''{}''"
  "store_rejects sample_runtime (InsertOrganization a b) = False"
  "store_rejects sample_runtime (InsertPlanType a b) = False"
  "store_rejects sample_runtime (InsertDate dr) = False"
  "store_rejects sample_runtime (InsertPlan a i j v) = False"
  "store_rejects sample_runtime (InsertService a b c) = False"
  "store_rejects sample_runtime (InsertPlanCost pr) =
     (\<not> (is_number (fp_deductible pr) \<and> is_number (fp_copay pr)
         \<and> is_number (total_cost_shares pr)))"
  "store_rejects sample_runtime (InsertServiceCost sr) =
     (\<not> (is_number (fs_deductible sr) \<and> is_number (fs_copay sr)
         \<and> is_number (total_service_cost sr)))"
  "store_rejects sample_runtime (InsertAudit ar) = False"
  by (simp_all add: sample_runtime_def)

lemma sample_dates:
  "calendar_date date_2024_01_15" "calendar_date date_2031_01_01"
  "calendar_date date_2031_01_02"
  "YYYYMMDD date_2024_01_15 = 20240115" "YYYYMMDD date_2031_01_01 = 20310101"
  "YYYYMMDD date_2031_01_02 = 20310102"
  by (simp_all add: calendar_date_def YYYYMMDD_def date_2024_01_15_def date_2031_01_01_def
        date_2031_01_02_def)

lemma ascii_samples:
  "list_all is_ascii ''inNetwork''" "map lower_char ''inNetwork'' = ''innetwork''"
  "list_all is_ascii ''innetwork''" "ascii_replace_spaces ''innetwork'' = ''innetwork''"
  "list_all is_ascii ''unknown''" "map lower_char ''unknown'' = ''unknown''"
  "ascii_replace_spaces ''unknown'' = ''unknown''"
  "list_all is_ascii ''Well  Baby''" "map lower_char ''Well  Baby'' = ''well  baby''"
  "list_all is_ascii ''well  baby''" "ascii_replace_spaces ''well  baby'' = ''well_baby''"
  "list_all is_ascii ''Yearly Physical''"
  "map lower_char ''Yearly Physical'' = ''yearly physical''"
  "list_all is_ascii ''yearly physical''"
  "ascii_replace_spaces ''yearly physical'' = ''yearly_physical''"
  "list_all is_ascii ''A''" "map lower_char ''A'' = ''a''"
  "list_all is_ascii ''a''" "ascii_replace_spaces ''a'' = ''a''"
  by code_simp+

lemma lowered_samples:
  "replace_spaces rt (toLowerCase rt ''inNetwork'') = ''innetwork''"
  "replace_spaces rt (toLowerCase rt ''unknown'') = ''unknown''"
  "replace_spaces rt (toLowerCase rt ''Well  Baby'') = ''well_baby''"
  "replace_spaces rt (toLowerCase rt ''Yearly Physical'') = ''yearly_physical''"
  "replace_spaces rt (toLowerCase rt ''A'') = ''a''"
  by (simp_all only: toLowerCase_def replace_spaces_def ascii_samples if_True)

lemma sample_environment_simps:
  "mongo_up sample_environment" "pg_up sample_environment"
  "plans_found sample_environment = Some [plan_p1, plan_bad_cost]"
  "today sample_environment i = date_2031_01_01"
  "now_start sample_environment = 1700000000000"
  "now_end sample_environment = 1700000005000"
  by (simp_all add: sample_environment_def)

text \<open>The two documents of the sample run: the first loads, the second is refused.\<close>

lemma load_plan_p1:
  "\<not> isl (fst (load_sequence sample_runtime d plan_p1
       (loop_start env ps empty_warehouse)))"
  by (simp add: etl_defs sample_runtime_simps plan_p1_def empty_warehouse_def loop_start_def
      module_stats_def generated_date_key_calendar sample_dates lowered_samples is_number_def)

lemma load_plan_bad_cost:
  "isl (fst (load_sequence sample_runtime d plan_bad_cost
       (process_plan sample_runtime d' plan_p1
          (loop_start env ps empty_warehouse))))"
  by (simp add: process_plan_def etl_defs sample_runtime_simps plan_p1_def plan_bad_cost_def
      empty_warehouse_def loop_start_def module_stats_def generated_date_key_calendar
      sample_dates lowered_samples is_number_def iso_date_key_text find_append)

lemma sample_failures:
  "failures sample_runtime clock 0 [plan_p1, plan_bad_cost]
     (loop_start env [plan_p1, plan_bad_cost] empty_warehouse) = 1"
  "failures sample_runtime clock 0 [plan_p1] (loop_start env [plan_p1] empty_warehouse) = 0"
  by (simp_all add: load_plan_p1 load_plan_bad_cost)

subsection \<open>The date key\<close>

text \<open>
  C4.  On a consistently keyed date table, for a value that stands for a calendar date
  (year 0 to 9999): unless the store refuses the new row, \<open>getOrCreateDateKey\<close> returns the
  year, month and day of the date written together as \<open>YYYYMMDD\<close>, whether the row was
  there or is created by this call; the table stays consistently keyed; and every value
  that stands for the same calendar day (another instance, another time of day) then gets
  the same key, from a pure read.
\<close>

theorem dateKey_is_YYYYMMDD:
  assumes "date_keys_consistent s" and "date_of rt v = ValidDate d" and "calendar_date d"
  shows "(\<exists>s'. getOrCreateDateKey rt v s = (Inr (YYYYMMDD d), s')
            \<and> date_keys_consistent s'
            \<and> (\<forall>v' d'. date_of rt v' = ValidDate d' \<and> utcFullYear d' = utcFullYear d
                   \<and> utcMonth d' = utcMonth d \<and> utcDate d' = utcDate d
                 \<longrightarrow> getOrCreateDateKey rt v' s' = (Inr (YYYYMMDD d), s')))
       \<or> (getOrCreateDateKey rt v s = (Inl DbError, s)
            \<and> select_date (iso_date d) s = None
            \<and> store_rejects rt (InsertDate (new_date_row d (YYYYMMDD d) (iso_date d))))"
proof (cases "select_date (iso_date d) s")
  case (Some r)
  have r: "r \<in> set (dim_date s)" "date_value r = iso_date d"
    using Some by (auto simp: select_date_def find_Some_iff)
  have "consistently_keyed r"
    using assms(1) r(1) by (simp add: date_keys_consistent_def list_all_iff)
  then have k: "date_key r = YYYYMMDD d"
    using consistent_key_of_date assms(3) r(2) by blast
  have again: "getOrCreateDateKey rt v' s = (Inr (YYYYMMDD d), s)"
    if "date_of rt v' = ValidDate d'" "iso_date d' = iso_date d" for v' d'
    using getOrCreateDateKey_found [OF that(1), of s r] Some that(2) k by simp
  have "getOrCreateDateKey rt v s = (Inr (YYYYMMDD d), s)"
    using again [OF assms(2)] by simp
  moreover have "\<forall>v' d'. date_of rt v' = ValidDate d' \<and> utcFullYear d' = utcFullYear d
                   \<and> utcMonth d' = utcMonth d \<and> utcDate d' = utcDate d
                 \<longrightarrow> getOrCreateDateKey rt v' s = (Inr (YYYYMMDD d), s)"
    using again same_day_iso_date [OF assms(3)] by blast
  ultimately show ?thesis using assms(1) by blast
next
  case None
  let ?row = "new_date_row d (YYYYMMDD d) (iso_date d)"
  note g = generated_date_key_calendar [OF assms(3)]
  show ?thesis
  proof (cases "store_rejects rt (InsertDate ?row)")
    case True
    then show ?thesis
      using getOrCreateDateKey_rejected [OF assms(2) None g] None by simp
  next
    case False
    have nokey: "find (\<lambda>r. date_key r = YYYYMMDD d) (dim_date s) = None"
    proof (rule ccontr)
      assume "find (\<lambda>r. date_key r = YYYYMMDD d) (dim_date s) \<noteq> None"
      then obtain r where r: "r \<in> set (dim_date s)" "date_key r = YYYYMMDD d"
        by (auto simp: find_None_iff)
      have "consistently_keyed r"
        using assms(1) r(1) by (simp add: date_keys_consistent_def list_all_iff)
      then have "date_value r = iso_date d"
        using r(2) by (simp add: consistently_keyed_def iso_date_key_text [OF assms(3)])
      then show False
        using None r(1) by (auto simp: select_date_def find_None_iff)
    qed
    let ?s' = "s\<lparr>dim_date := dim_date s @ [?row]\<rparr>"
    have 1: "getOrCreateDateKey rt v s = (Inr (YYYYMMDD d), ?s')"
      using getOrCreateDateKey_new [OF assms(2) None g False nokey] .
    have 2: "date_keys_consistent ?s'"
      using assms(1) new_row_consistent [OF assms(3)]
      by (simp add: date_keys_consistent_def)
    have sel: "select_date (iso_date d) ?s' = Some ?row"
      using None by (simp add: select_date_def find_append new_date_row_def)
    have 3: "getOrCreateDateKey rt v' ?s' = (Inr (YYYYMMDD d), ?s')"
      if "date_of rt v' = ValidDate d'" "iso_date d' = iso_date d" for v' d'
      using getOrCreateDateKey_found [OF that(1), of ?s' ?row] sel that(2)
      by (simp add: new_date_row_def)
    have "\<forall>v' d'. date_of rt v' = ValidDate d' \<and> utcFullYear d' = utcFullYear d
                   \<and> utcMonth d' = utcMonth d \<and> utcDate d' = utcDate d
                 \<longrightarrow> getOrCreateDateKey rt v' ?s' = (Inr (YYYYMMDD d), ?s')"
      using 3 same_day_iso_date [OF assms(3)] by blast
    then show ?thesis using 1 2 by blast
  qed
qed

theorem dateKey_is_YYYYMMDD_witness:
  "date_keys_consistent empty_warehouse
   \<and> date_of sample_runtime (Str ''2024-01-15'') = ValidDate date_2024_01_15
   \<and> calendar_date date_2024_01_15
   \<and> (\<exists>s'. getOrCreateDateKey sample_runtime (Str ''2024-01-15'') empty_warehouse
              = (Inr 20240115, s')
          \<and> getOrCreateDateKey sample_runtime (DateObj (ValidDate date_2024_01_15)) s'
              = (Inr 20240115, s'))"
proof -
  have h1: "date_keys_consistent empty_warehouse"
    by (simp add: date_keys_consistent_def empty_warehouse_def)
  have h2: "date_of sample_runtime (Str ''2024-01-15'') = ValidDate date_2024_01_15"
    by (simp add: date_of_def sample_runtime_simps)
  have h3: "calendar_date date_2024_01_15" by (simp add: sample_dates)
  have o: "date_of sample_runtime (DateObj (ValidDate date_2024_01_15)) = ValidDate date_2024_01_15"
    by (simp add: date_of_def)
  from dateKey_is_YYYYMMDD [OF h1 h2 h3]
  obtain s' where s':
    "getOrCreateDateKey sample_runtime (Str ''2024-01-15'') empty_warehouse
       = (Inr (YYYYMMDD date_2024_01_15), s')"
    "\<forall>v' d'. date_of sample_runtime v' = ValidDate d'
        \<and> utcFullYear d' = utcFullYear date_2024_01_15
        \<and> utcMonth d' = utcMonth date_2024_01_15 \<and> utcDate d' = utcDate date_2024_01_15
      \<longrightarrow> getOrCreateDateKey sample_runtime v' s' = (Inr (YYYYMMDD date_2024_01_15), s')"
    by (auto simp: sample_runtime_simps)
  have "getOrCreateDateKey sample_runtime (DateObj (ValidDate date_2024_01_15)) s'
      = (Inr (YYYYMMDD date_2024_01_15), s')"
    using s'(2) o by blast
  then show ?thesis using h1 h2 h3 s'(1) by (auto simp: sample_dates)
qed


subsection \<open>The run\<close>

lemma runETL_try_connected:
  assumes "mongo_up env" and "pg_up env" and "plans_found env = Some plans"
    and "s2 = load_plans rt (today env) 0 plans (s\<lparr>plansExtracted := length plans\<rparr>)"
    and "\<not> store_rejects rt (InsertAudit (audit_row_of s2))"
  shows "runETL_try rt env s =
    (Inr (), s2\<lparr>etl_audit_log := etl_audit_log s2 @ [audit_row_of s2],
                endTime := Some (now_end env)\<rparr>,
     \<lparr>mongo_connected = True, client_checked_out = True, pool_ended = False\<rparr>)"
  using assms(1,2,3,5) unfolding assms(4)
  by (simp add: runETL_try_def logETLRun_def Let_def)

lemma script_connected:
  assumes "mongo_up env" and "pg_up env" and "plans_found env = Some plans"
    and "\<forall>a. \<not> store_rejects rt (InsertAudit a)"
    and "s2 = load_plans rt (today env) 0 plans (loop_start env plans w)"
  shows "outcome (script rt env w) = Resolved Undefined"
    and "final (script rt env w) =
           s2\<lparr>etl_audit_log := etl_audit_log s2 @ [audit_row_of s2],
              endTime := Some (now_end env)\<rparr>"
proof -
  have acc: "\<not> store_rejects rt (InsertAudit (audit_row_of s2))"
    using assms(4) by simp
  have s2: "s2 = load_plans rt (today env) 0 plans
                  (((module_stats w)\<lparr>startTime := Some (now_start env)\<rparr>)
                     \<lparr>plansExtracted := length plans\<rparr>)"
    unfolding assms(5) loop_start_def ..
  note t = runETL_try_connected [OF assms(1,2,3) s2 acc]
  show "outcome (script rt env w) = Resolved Undefined"
    by (simp only: script_def runETL_def t prod.case run.simps sum.case)
  show "final (script rt env w) =
           s2\<lparr>etl_audit_log := etl_audit_log s2 @ [audit_row_of s2],
              endTime := Some (now_end env)\<rparr>"
    by (simp only: script_def runETL_def t prod.case run.simps)
qed


text \<open>
  C2.  A run that connects to both stores and fetches \<open>N\<close> documents resolves normally and
  appends one audit record with \<open>records_processed = N\<close> and \<open>records_failed = k\<close>, where \<open>k\<close>
  is the number of documents whose load sequence throws; the other \<open>N - k\<close> are counted as
  inserted.  A document whose load sequence throws leaves every table as it was, adds one
  to the failure counter, and the loop goes on with the state so obtained.
\<close>

theorem failed_documents_are_counted:
  assumes "mongo_up env" and "pg_up env" and "plans_found env = Some plans"
    and "\<forall>a. \<not> store_rejects rt (InsertAudit a)"
  shows "(\<exists>a. outcome (script rt env w) = Resolved Undefined
      \<and> etl_audit_log (final (script rt env w)) = etl_audit_log w @ [a]
      \<and> records_processed a = length plans
      \<and> records_failed a = failures rt (today env) 0 plans (loop_start env plans w)
      \<and> records_inserted a + records_failed a = length plans)
    \<and> (\<forall>now plan s. isl (fst (load_sequence rt now plan s)) \<longrightarrow>
         tables (process_plan rt now plan s) = tables s
         \<and> errors (process_plan rt now plan s) = errors s + 1
         \<and> plansLoaded (process_plan rt now plan s) = plansLoaded s)"
proof -
  define s1 where "s1 = loop_start env plans w"
  define s2 where "s2 = load_plans rt (today env) 0 plans s1"
  have init: "plansExtracted s1 = length plans" "etl_audit_log s1 = etl_audit_log w"
    "errors s1 = 0" "plansLoaded s1 = 0"
    by (simp_all add: s1_def loop_start_def module_stats_def)
  have st: "plansExtracted s2 = length plans" "etl_audit_log s2 = etl_audit_log w"
    "errors s2 = failures rt (today env) 0 plans s1"
    "plansLoaded s2 + failures rt (today env) 0 plans s1 = length plans"
    using load_plans_stats [of rt "today env" 0 plans s1] init
    by (simp_all add: s2_def)
  note sc = script_connected [OF assms s2_def [unfolded s1_def]]
  have a: "outcome (script rt env w) = Resolved Undefined
      \<and> etl_audit_log (final (script rt env w)) = etl_audit_log w @ [audit_row_of s2]
      \<and> records_processed (audit_row_of s2) = length plans
      \<and> records_failed (audit_row_of s2) = failures rt (today env) 0 plans s1
      \<and> records_inserted (audit_row_of s2) + records_failed (audit_row_of s2) = length plans"
    using st by (simp add: sc audit_row_of_def)
  have b: "\<forall>now plan s. isl (fst (load_sequence rt now plan s)) \<longrightarrow>
         tables (process_plan rt now plan s) = tables s
         \<and> errors (process_plan rt now plan s) = errors s + 1
         \<and> plansLoaded (process_plan rt now plan s) = plansLoaded s"
    by (simp add: process_plan_rolls_back process_plan_stats)
  show ?thesis
    using a b unfolding s1_def by blast
qed

theorem failed_documents_are_counted_witness:
  "mongo_up sample_environment \<and> pg_up sample_environment
   \<and> plans_found sample_environment = Some [plan_p1, plan_bad_cost]
   \<and> (\<forall>a. \<not> store_rejects sample_runtime (InsertAudit a))
   \<and> (\<exists>a. outcome (script sample_runtime sample_environment empty_warehouse) = Resolved Undefined
        \<and> etl_audit_log (final (script sample_runtime sample_environment empty_warehouse))
            = etl_audit_log empty_warehouse @ [a]
        \<and> records_processed a = 2 \<and> records_failed a = 1)"
proof -
  have h: "mongo_up sample_environment" "pg_up sample_environment"
    "plans_found sample_environment = Some [plan_p1, plan_bad_cost]"
    by (simp_all add: sample_environment_simps)
  have acc: "\<forall>a. \<not> store_rejects sample_runtime (InsertAudit a)"
    by (simp add: sample_runtime_simps)
  note t = failed_documents_are_counted [OF h acc, of empty_warehouse]
  then obtain a where a:
    "outcome (script sample_runtime sample_environment empty_warehouse) = Resolved Undefined"
    "etl_audit_log (final (script sample_runtime sample_environment empty_warehouse))
       = etl_audit_log empty_warehouse @ [a]"
    "records_processed a = length [plan_p1, plan_bad_cost]"
    "records_failed a = failures sample_runtime (today sample_environment) 0
        [plan_p1, plan_bad_cost]
        (loop_start sample_environment [plan_p1, plan_bad_cost] empty_warehouse)"
    by blast
  have "records_processed a = 2" using a(3) by simp
  moreover have "records_failed a = 1" using a(4) by (simp only: sample_failures)
  ultimately have "\<exists>a. outcome (script sample_runtime sample_environment empty_warehouse)
          = Resolved Undefined
        \<and> etl_audit_log (final (script sample_runtime sample_environment empty_warehouse))
            = etl_audit_log empty_warehouse @ [a]
        \<and> records_processed a = 2 \<and> records_failed a = 1"
    using a(1,2) by blast
  then show ?thesis using h acc by blast
qed


text \<open>
  C3.  A run over no documents, started at 1700000000000 ms and finished 5000 ms later:
  the audit record carries the start time, but its end time is the epoch, because
  \<open>stats.endTime\<close> is still \<open>null\<close> when \<open>logETLRun\<close> reads it.
\<close>

theorem audit_end_time_is_epoch:
  "etl_audit_log (final (script sample_runtime
      (sample_environment\<lparr>plans_found := Some []\<rparr>) empty_warehouse)) =
     [\<lparr>job_name = ''MongoDB to PostgreSQL ETL'', job_type = ''FULL_LOAD'',
       start_time = 1700000000000, end_time = 0, status = ''SUCCESS'',
       records_processed = 0, records_inserted = 0, records_updated = 0,
       records_failed = 0, error_message = None\<rparr>]
   \<and> endTime (final (script sample_runtime
      (sample_environment\<lparr>plans_found := Some []\<rparr>) empty_warehouse)) = Some 1700000005000"
  by (simp add: script_def runETL_def runETL_try_def logETLRun_def audit_row_of_def
      Date_of_time_def module_stats_def sample_environment_def sample_runtime_simps
      empty_warehouse_def Let_def)

lemma errors_of_script:
  assumes "mongo_up env" and "pg_up env" and "plans_found env = Some plans"
    and "\<forall>a. \<not> store_rejects rt (InsertAudit a)"
  shows "errors (final (script rt env w))
      = failures rt (today env) 0 plans (loop_start env plans w)"
proof -
  have "errors (loop_start env plans w) = 0"
    by (simp add: loop_start_def module_stats_def)
  then show ?thesis
    using load_plans_stats [of rt "today env" 0 plans "loop_start env plans w"]
    by (simp add: script_connected(2) [OF assms refl])
qed

text \<open>
  C8, as the script has it.  The process always ends with status 0, and the connections
  are always released.  The promise resolves to \<open>false\<close> when a store cannot be reached or
  the documents cannot be fetched, and to \<open>undefined\<close> whenever the run reaches its end
  with its audit record written, whatever the number of failed documents.
\<close>

theorem script_always_exits_zero:
  "exit_status (script rt env w) = 0
   \<and> conns (script rt env w)
       = \<lparr>mongo_connected = False, client_checked_out = False, pool_ended = True\<rparr>
   \<and> (\<not> mongo_up env \<or> \<not> pg_up env \<or> plans_found env = None
        \<longrightarrow> outcome (script rt env w) = Resolved (Bool False))
   \<and> (mongo_up env \<and> pg_up env \<and> plans_found env \<noteq> None
         \<and> (\<forall>a. \<not> store_rejects rt (InsertAudit a))
        \<longrightarrow> outcome (script rt env w) = Resolved Undefined)"
proof -
  have 1: "exit_status (script rt env w) = 0"
    by (simp add: exit_status_def script_def runETL_def split: prod.splits)
  have 2: "conns (script rt env w)
       = \<lparr>mongo_connected = False, client_checked_out = False, pool_ended = True\<rparr>"
    by (simp add: script_def runETL_def split: prod.splits)
  have 3: "\<not> mongo_up env \<or> \<not> pg_up env \<or> plans_found env = None
        \<longrightarrow> outcome (script rt env w) = Resolved (Bool False)"
    by (auto simp: script_def runETL_def runETL_try_def)
  have 4: "mongo_up env \<and> pg_up env \<and> plans_found env \<noteq> None
         \<and> (\<forall>a. \<not> store_rejects rt (InsertAudit a))
        \<longrightarrow> outcome (script rt env w) = Resolved Undefined"
    using script_connected(1) [of env _ rt _ w] by auto
  show ?thesis using 1 2 3 4 by blast
qed

theorem script_always_exits_zero_witness:
  "\<not> mongo_up (sample_environment\<lparr>mongo_up := False, pg_up := False\<rparr>)
   \<and> exit_status (script sample_runtime
        (sample_environment\<lparr>mongo_up := False, pg_up := False\<rparr>) empty_warehouse) = 0
   \<and> outcome (script sample_runtime
        (sample_environment\<lparr>mongo_up := False, pg_up := False\<rparr>) empty_warehouse)
       = Resolved (Bool False)
   \<and> conns (script sample_runtime
        (sample_environment\<lparr>mongo_up := False, pg_up := False\<rparr>) empty_warehouse)
       = \<lparr>mongo_connected = False, client_checked_out = False, pool_ended = True\<rparr>"
proof -
  let ?env = "sample_environment\<lparr>mongo_up := False, pg_up := False\<rparr>"
  have h: "\<not> mongo_up ?env" by simp
  note t = script_always_exits_zero [of sample_runtime ?env empty_warehouse]
  have "outcome (script sample_runtime ?env empty_warehouse) = Resolved (Bool False)"
    using t h by blast
  then show ?thesis using t h by blast
qed

text \<open>
  When neither store can be reached the process still ends with status 0; and a run in
  which one of two documents fails resolves to the same value as a run with no failure.
\<close>

theorem exit_status_counterexample:
  "exit_status (script sample_runtime
      (sample_environment\<lparr>mongo_up := False, pg_up := False\<rparr>) empty_warehouse) = 0
   \<and> errors (final (script sample_runtime sample_environment empty_warehouse)) = 1
   \<and> errors (final (script sample_runtime
        (sample_environment\<lparr>plans_found := Some [plan_p1]\<rparr>) empty_warehouse)) = 0
   \<and> outcome (script sample_runtime sample_environment empty_warehouse)
       = outcome (script sample_runtime
           (sample_environment\<lparr>plans_found := Some [plan_p1]\<rparr>) empty_warehouse)"
proof -
  let ?env1 = "sample_environment\<lparr>plans_found := Some [plan_p1]\<rparr>"
  have acc: "\<forall>a. \<not> store_rejects sample_runtime (InsertAudit a)"
    by (simp add: sample_runtime_simps)
  have h: "mongo_up sample_environment" "pg_up sample_environment"
    "plans_found sample_environment = Some [plan_p1, plan_bad_cost]"
    by (simp_all add: sample_environment_simps)
  have h1: "mongo_up ?env1" "pg_up ?env1" "plans_found ?env1 = Some [plan_p1]"
    by (simp_all add: sample_environment_simps)
  have a: "exit_status (script sample_runtime
      (sample_environment\<lparr>mongo_up := False, pg_up := False\<rparr>) empty_warehouse) = 0"
    by (simp add: exit_status_def script_def runETL_def runETL_try_def)
  have b: "errors (final (script sample_runtime sample_environment empty_warehouse)) = 1"
    by (simp only: errors_of_script [OF h acc] sample_failures)
  have c: "errors (final (script sample_runtime ?env1 empty_warehouse)) = 0"
    by (simp only: errors_of_script [OF h1 acc] sample_failures)
  have d: "outcome (script sample_runtime sample_environment empty_warehouse) = Resolved Undefined"
    by (rule script_connected(1) [OF h acc refl])
  have e: "outcome (script sample_runtime ?env1 empty_warehouse) = Resolved Undefined"
    by (rule script_connected(1) [OF h1 acc refl])
  show ?thesis using a b c d e by simp
qed

subsection \<open>Service facts\<close>





subsection \<open>Resolution of dimensions\<close>

subsection \<open>What each step may change\<close>





lemma loadPlanFacts_shape:
  "\<exists>F. snd (loadPlanFacts rt plan ks s) = s\<lparr>fact_plan_costs := F\<rparr>"
proof -
  have same: "\<exists>F. s = s\<lparr>fact_plan_costs := F\<rparr>"
    by (intro exI [of _ "fact_plan_costs s"]) simp
  show ?thesis
    using same by (auto simp: loadPlanFacts_def insert_plan_cost_def)
qed

subsection \<open>A successful step resolves its dimension\<close>








subsection \<open>A resolved dimension is read back\<close>









subsection \<open>Linked services\<close>

lemma find_append_Some: "find P xs = Some r \<Longrightarrow> find P (xs @ ys) = Some r"
  by (simp add: find_append)











subsection \<open>Loading one document\<close>






subsection \<open>The plan-cost fact\<close>



subsection \<open>The service-cost facts\<close>










subsection \<open>Natural keys stay unique\<close>












































subsection \<open>The properties on the concrete inputs\<close>






















end
